theory Spec2Isabelle
  imports Complex_Main "HOL-Library.Word"
begin

unbundle bit_operations_syntax

section \<open>Numbers, errors and arrays\<close>

text \<open>
  A Python or numpy float is a finite real, an infinity or NaN. Finite values are exact
  reals: rounding, overflow and the sign of zero are outside this model. The operations
  follow numpy under \<open>np.errstate(invalid='ignore', divide='ignore')\<close>: a division by
  zero gives an infinity or NaN, and every comparison with NaN is false.
\<close>

datatype pyfloat = Fin real | PInf | NInf | NaN

datatype pyerror =
  ValueError | RuntimeError | KeyError | TypeError | IndexError | NameError
  | ZeroDivisionError | AttributeError | KernelSizeError

fun fneg :: "pyfloat \<Rightarrow> pyfloat" where
  "fneg (Fin x) = Fin (- x)"
| "fneg PInf = NInf"
| "fneg NInf = PInf"
| "fneg NaN = NaN"

fun fadd :: "pyfloat \<Rightarrow> pyfloat \<Rightarrow> pyfloat" where
  "fadd (Fin x) (Fin y) = Fin (x + y)"
| "fadd NaN b = NaN"
| "fadd a NaN = NaN"
| "fadd PInf NInf = NaN"
| "fadd NInf PInf = NaN"
| "fadd PInf b = PInf"
| "fadd a PInf = PInf"
| "fadd NInf b = NInf"
| "fadd a NInf = NInf"

definition fsub :: "pyfloat \<Rightarrow> pyfloat \<Rightarrow> pyfloat" where
  "fsub a b = fadd a (fneg b)"

fun inf_times :: "bool \<Rightarrow> real \<Rightarrow> pyfloat" where
  "inf_times positive x =
     (if x = 0 then NaN else if (0 < x) = positive then PInf else NInf)"

fun fmul :: "pyfloat \<Rightarrow> pyfloat \<Rightarrow> pyfloat" where
  "fmul (Fin x) (Fin y) = Fin (x * y)"
| "fmul NaN b = NaN"
| "fmul a NaN = NaN"
| "fmul (Fin x) PInf = inf_times True x"
| "fmul (Fin x) NInf = inf_times False x"
| "fmul PInf (Fin y) = inf_times True y"
| "fmul NInf (Fin y) = inf_times False y"
| "fmul PInf PInf = PInf"
| "fmul NInf NInf = PInf"
| "fmul PInf NInf = NInf"
| "fmul NInf PInf = NInf"

fun fdiv :: "pyfloat \<Rightarrow> pyfloat \<Rightarrow> pyfloat" where
  "fdiv (Fin x) (Fin y) =
     (if y = 0 then (if x = 0 then NaN else if 0 < x then PInf else NInf)
      else Fin (x / y))"
| "fdiv NaN b = NaN"
| "fdiv a NaN = NaN"
| "fdiv (Fin x) PInf = Fin 0"
| "fdiv (Fin x) NInf = Fin 0"
| "fdiv PInf (Fin y) = (if y < 0 then NInf else PInf)"
| "fdiv NInf (Fin y) = (if y < 0 then PInf else NInf)"
| "fdiv PInf b = NaN"
| "fdiv NInf b = NaN"

fun fsqrt :: "pyfloat \<Rightarrow> pyfloat" where
  "fsqrt (Fin x) = (if x < 0 then NaN else Fin (sqrt x))"
| "fsqrt PInf = PInf"
| "fsqrt NInf = NaN"
| "fsqrt NaN = NaN"

text \<open>\<open>np.sign\<close>: -1, 0 or 1, and NaN for NaN.\<close>

fun fsign :: "pyfloat \<Rightarrow> pyfloat" where
  "fsign (Fin x) = Fin (sgn x)"
| "fsign PInf = Fin 1"
| "fsign NInf = Fin (- 1)"
| "fsign NaN = NaN"

fun fabs :: "pyfloat \<Rightarrow> pyfloat" where
  "fabs (Fin x) = Fin \<bar>x\<bar>"
| "fabs PInf = PInf"
| "fabs NInf = PInf"
| "fabs NaN = NaN"

fun flt :: "pyfloat \<Rightarrow> pyfloat \<Rightarrow> bool" where
  "flt (Fin x) (Fin y) = (x < y)"
| "flt NaN b = False"
| "flt a NaN = False"
| "flt a NInf = False"
| "flt PInf b = False"
| "flt NInf b = True"
| "flt a PInf = True"

definition fgt :: "pyfloat \<Rightarrow> pyfloat \<Rightarrow> bool" where
  "fgt a b = flt b a"

fun feq :: "pyfloat \<Rightarrow> pyfloat \<Rightarrow> bool" where
  "feq (Fin x) (Fin y) = (x = y)"
| "feq PInf PInf = True"
| "feq NInf NInf = True"
| "feq a b = False"

fun isfinite :: "pyfloat \<Rightarrow> bool" where
  "isfinite (Fin x) = True"
| "isfinite a = False"

text \<open>Python's builtin \<open>max(a, b)\<close> keeps \<open>a\<close> unless \<open>b > a\<close>.\<close>

definition pymax :: "pyfloat \<Rightarrow> pyfloat \<Rightarrow> pyfloat" where
  "pymax a b = (if fgt b a then b else a)"

definition FLUX_FACTOR :: pyfloat where
  "FLUX_FACTOR = Fin (1 / 10 ^ 12)"

definition MAX_NITER :: nat where
  "MAX_NITER = 20"

definition RTOL :: pyfloat where
  "RTOL = Fin (1 / 1000)"

text \<open>An exception is the left summand of the result; \<open>ebind\<close> sequences two steps.\<close>

definition ebind :: "pyerror + 'a \<Rightarrow> ('a \<Rightarrow> pyerror + 'b) \<Rightarrow> pyerror + 'b" where
  "ebind m f = (case m of Inl e \<Rightarrow> Inl e | Inr v \<Rightarrow> f v)"

fun emap :: "('a \<Rightarrow> pyerror + 'b) \<Rightarrow> 'a list \<Rightarrow> pyerror + 'b list" where
  "emap f [] = Inr []"
| "emap f (x # xs) =
     (case f x of Inl e \<Rightarrow> Inl e
      | Inr y \<Rightarrow> (case emap f xs of Inl e \<Rightarrow> Inl e | Inr ys \<Rightarrow> Inr (y # ys)))"

text \<open>A two-dimensional array is the list of its rows.\<close>

type_synonym image = "pyfloat list list"

definition shape :: "'a list list \<Rightarrow> nat \<times> nat" where
  "shape a = (length a, case a of [] \<Rightarrow> 0 | r # rs \<Rightarrow> length r)"

definition full :: "nat \<times> nat \<Rightarrow> 'a \<Rightarrow> 'a list list" where
  "full sh v = replicate (fst sh) (replicate (snd sh) v)"

definition asum :: "image \<Rightarrow> pyfloat" where
  "asum a = foldl fadd (Fin 0) (concat a)"

definition arr_map :: "('a \<Rightarrow> 'b) \<Rightarrow> 'a list list \<Rightarrow> 'b list list" where
  "arr_map f a = map (map f) a"

definition arr_map2 :: "('a \<Rightarrow> 'b \<Rightarrow> 'c) \<Rightarrow> 'a list list \<Rightarrow> 'b list list \<Rightarrow> 'c list list" where
  "arr_map2 f a b = map2 (map2 f) a b"

text \<open>
  An elementwise numpy operation on two arrays. Arrays of one shape are the only case the
  driver produces; for unequal shapes numpy broadcasts axes of length one and raises
  ValueError otherwise, and the model raises in both cases.
\<close>

definition np_binop :: "(pyfloat \<Rightarrow> pyfloat \<Rightarrow> pyfloat) \<Rightarrow> image \<Rightarrow> image \<Rightarrow> pyerror + image" where
  "np_binop f a b =
     (if map length a = map length b then Inr (arr_map2 f a b) else Inl ValueError)"

text \<open>Python slicing \<open>xs[lo:hi]\<close>: a negative bound counts from the end, and both are clipped.\<close>

definition slice_bound :: "int \<Rightarrow> nat \<Rightarrow> nat" where
  "slice_bound i n = (if i < 0 then nat (max 0 (i + int n)) else min (nat i) n)"

definition py_slice :: "'a list \<Rightarrow> int \<Rightarrow> int \<Rightarrow> 'a list" where
  "py_slice xs lo hi =
     (let l = slice_bound lo (length xs); h = slice_bound hi (length xs)
      in take (h - l) (drop l xs))"

text \<open>Indexing \<open>a[j, i]\<close> with a tuple of integers.\<close>

definition py_index :: "int \<Rightarrow> nat \<Rightarrow> pyerror + nat" where
  "py_index i n =
     (let k = (if i < 0 then i + int n else i)
      in if k < 0 \<or> int n \<le> k then Inl IndexError else Inr (nat k))"

definition index2d :: "'a list list \<Rightarrow> int \<times> int \<Rightarrow> pyerror + 'a" where
  "index2d a pos =
     ebind (py_index (fst pos) (length a)) (\<lambda>j.
     ebind (py_index (snd pos) (length (a ! j))) (\<lambda>i. Inr (a ! j ! i)))"

definition extract_array :: "'a list list \<Rightarrow> nat \<times> nat \<Rightarrow> int \<times> int \<Rightarrow> 'a list list" where
  "extract_array array sh position =
     (let x_width = int (snd sh div 2);
          y_width = int (fst sh div 2);
          y_lo = fst position - y_width;
          y_hi = fst position + y_width + 1;
          x_lo = snd position - x_width;
          x_hi = snd position + x_width + 1
      in map (\<lambda>row. py_slice row x_lo x_hi) (py_slice array y_lo y_hi))"

section \<open>The compiled helpers and the library routines\<close>

text \<open>
  The module \<open>_test_statistics_cython\<close> (the Cash statistic, its derivative, the amplitude
  bounds and the least-squares step) is compiled code outside the Python sources, and
  \<open>brentq\<close>, \<open>newton\<close> and \<open>fftconvolve\<close> belong to scipy, \<open>CustomKernel\<close> to astropy. They
  are parameters of the model. A root finder either returns or raises; \<open>brentq\<close> returns
  the root with the number of iterations it used; \<open>CustomKernel\<close> returns the array of the
  kernel it builds from an array, or raises.
\<close>

record externals =
  cash_cython :: "image \<Rightarrow> image \<Rightarrow> image"
  cash_sum_cython :: "image \<Rightarrow> image \<Rightarrow> pyfloat"
  amplitude_bounds_cython :: "image \<Rightarrow> image \<Rightarrow> image \<Rightarrow> pyfloat \<times> pyfloat \<times> pyfloat"
  f_cash_root_cython :: "pyfloat \<Rightarrow> image \<Rightarrow> image \<Rightarrow> image \<Rightarrow> pyfloat"
  x_best_leastsq :: "image \<Rightarrow> image \<Rightarrow> image \<Rightarrow> image \<Rightarrow> pyfloat"
  brentq :: "(pyfloat \<Rightarrow> pyfloat) \<Rightarrow> pyfloat \<Rightarrow> pyfloat \<Rightarrow> nat \<Rightarrow> pyfloat \<Rightarrow> pyerror + (pyfloat \<times> nat)"
  newton :: "(pyfloat \<Rightarrow> pyfloat) \<Rightarrow> pyfloat \<Rightarrow> nat \<Rightarrow> pyfloat \<Rightarrow> pyerror + pyfloat"
  fftconvolve :: "image \<Rightarrow> image \<Rightarrow> image"
  custom_kernel :: "image \<Rightarrow> pyerror + image"

section \<open>The statistic and the amplitude solvers\<close>

text \<open>\<open>background + x * FLUX_FACTOR * model\<close>, the windows having one shape.\<close>

definition total_model :: "pyfloat \<Rightarrow> image \<Rightarrow> image \<Rightarrow> image" where
  "total_model x background model =
     arr_map2 fadd background (arr_map (fmul (fmul x FLUX_FACTOR)) model)"

definition f_cash :: "externals \<Rightarrow> pyfloat \<Rightarrow> image \<Rightarrow> image \<Rightarrow> image \<Rightarrow> pyfloat" where
  "f_cash ext x counts background model =
     cash_sum_cython ext counts (total_model x background model)"

text \<open>
  The loop of \<open>_leastsq_iter_amplitude\<close>: \<open>n\<close> iterations are left, \<open>i\<close> are done. The
  quotient \<open>(x - x_old) / x\<close> is one of Python floats, which raises on a zero divisor.
  After the last iteration \<open>x\<close> is the value \<open>x_old\<close> was set to.
\<close>

fun leastsq_loop ::
  "externals \<Rightarrow> image \<Rightarrow> image \<Rightarrow> image \<Rightarrow> pyfloat \<Rightarrow> pyfloat \<Rightarrow> nat \<Rightarrow> nat \<Rightarrow> image \<Rightarrow> pyfloat
    \<Rightarrow> pyerror + (pyfloat \<times> nat)" where
  "leastsq_loop ext counts background model rtol amplitude_min_total 0 i weights x_old =
     Inr (pymax (fdiv x_old FLUX_FACTOR) amplitude_min_total, MAX_NITER)"
| "leastsq_loop ext counts background model rtol amplitude_min_total (Suc n) i weights x_old =
     (let x = x_best_leastsq ext counts background model weights
      in if x = Fin 0 then Inl ZeroDivisionError
         else if flt (fabs (fdiv (fsub x x_old) x)) rtol
           then Inr (pymax (fdiv x FLUX_FACTOR) amplitude_min_total, i + 1)
         else leastsq_loop ext counts background model rtol amplitude_min_total n (i + 1)
                (arr_map2 fadd (arr_map (fmul x) model) background) x)"

definition leastsq_iter_amplitude ::
  "externals \<Rightarrow> image \<Rightarrow> image \<Rightarrow> image \<Rightarrow> nat \<Rightarrow> pyfloat \<Rightarrow> pyerror + (pyfloat \<times> nat)" where
  "leastsq_iter_amplitude ext counts background model maxiter rtol =
     (case amplitude_bounds_cython ext counts background model of
        (amplitude_min, amplitude_max, amplitude_min_total) \<Rightarrow>
          if fgt (asum counts) (Fin 0)
          then (if maxiter = 0 then Inl NameError
                else leastsq_loop ext counts background model rtol amplitude_min_total
                       maxiter 0 (arr_map (\<lambda>v. Fin 1) model) (Fin 0))
          else Inr (amplitude_min_total, 0))"

text \<open>\<open>_root_amplitude\<close>: Newton's method from the seed; only RuntimeError is caught.\<close>

definition root_amplitude ::
  "externals \<Rightarrow> image \<Rightarrow> image \<Rightarrow> image \<Rightarrow> pyfloat \<Rightarrow> pyfloat \<Rightarrow> pyerror + (pyfloat \<times> nat)" where
  "root_amplitude ext counts background model flux rtol =
     (case newton ext (\<lambda>x. f_cash_root_cython ext x counts background model) flux MAX_NITER rtol of
        Inr x0 \<Rightarrow> Inr (x0, 0)
      | Inl e \<Rightarrow> if e = RuntimeError then Inr (NaN, MAX_NITER) else Inl e)"

text \<open>\<open>_root_amplitude_brentq\<close>: RuntimeError and ValueError are caught.\<close>

definition root_amplitude_brentq ::
  "externals \<Rightarrow> image \<Rightarrow> image \<Rightarrow> image \<Rightarrow> pyfloat \<Rightarrow> pyerror + (pyfloat \<times> nat)" where
  "root_amplitude_brentq ext counts background model rtol =
     (case amplitude_bounds_cython ext counts background model of
        (amplitude_min, amplitude_max, amplitude_min_total) \<Rightarrow>
          if fgt (asum counts) (Fin 0)
          then (case brentq ext (\<lambda>x. f_cash_root_cython ext x counts background model)
                       amplitude_min amplitude_max MAX_NITER rtol of
                  Inr (x0, iterations) \<Rightarrow> Inr (pymax x0 amplitude_min_total, iterations)
                | Inl e \<Rightarrow> if e = RuntimeError \<or> e = ValueError
                           then Inr (NaN, MAX_NITER) else Inl e)
          else Inr (amplitude_min_total, 0))"

section \<open>Errors and upper limits\<close>

definition compute_flux_err_covar :: "pyfloat \<Rightarrow> image \<Rightarrow> image \<Rightarrow> image \<Rightarrow> pyfloat" where
  "compute_flux_err_covar x counts background model =
     (let stat = arr_map2 fdiv
                   (arr_map2 fmul (arr_map (\<lambda>m. fmul m m) model) counts)
                   (arr_map (\<lambda>t. fmul t t) (total_model x background model))
      in fsqrt (fdiv (Fin 1) (asum stat)))"

definition compute_flux_err_conf ::
  "externals \<Rightarrow> pyfloat \<Rightarrow> image \<Rightarrow> image \<Rightarrow> image \<Rightarrow> pyfloat \<Rightarrow> pyfloat \<Rightarrow> pyerror + pyfloat" where
  "compute_flux_err_conf ext amplitude counts background model c_1 error_sigma =
     (let ts_diff = (\<lambda>x. fsub (fadd c_1 (fmul error_sigma error_sigma))
                            (f_cash ext x counts background model));
          amplitude_max = fadd amplitude (Fin 10000)
      in case brentq ext ts_diff amplitude amplitude_max MAX_NITER (Fin (1 / 1000)) of
           Inr (x0, iterations) \<Rightarrow> Inr (fsub x0 amplitude)
         | Inl e \<Rightarrow> if e = RuntimeError \<or> e = ValueError then Inr NaN else Inl e)"

section \<open>The per-pixel evaluator\<close>

text \<open>
  What \<open>_ts_value\<close> returns: the dictionary it builds after a fit, or the tuple of the
  threshold branch. An integer stored in either is written as a float, as it is once the
  driver copies it into a float array.
\<close>

datatype pyresult = PyTuple "pyfloat list" | PyDict "string \<Rightarrow> pyfloat option"

text \<open>\<open>r[name]\<close>: a tuple cannot be indexed by a string; a dictionary raises on a missing key.\<close>

fun result_item :: "pyresult \<Rightarrow> string \<Rightarrow> pyerror + pyfloat" where
  "result_item (PyTuple vs) name = Inl TypeError"
| "result_item (PyDict d) name = (case d name of None \<Rightarrow> Inl KeyError | Some v \<Rightarrow> Inr v)"

text \<open>\<open>flux[position]\<close>; the flux map is None unless the method is \<open>'root newton'\<close>.\<close>

definition flux_item :: "image option \<Rightarrow> int \<times> int \<Rightarrow> pyerror + pyfloat" where
  "flux_item flux position =
     (case flux of None \<Rightarrow> Inl TypeError | Some f \<Rightarrow> index2d f position)"

text \<open>
  The threshold branch of \<open>_ts_value\<close>: \<open>Some\<close> of the value returned at once, or \<open>None\<close>
  when the evaluator goes on to the fit.
\<close>

definition threshold_result ::
  "externals \<Rightarrow> pyfloat option \<Rightarrow> image option \<Rightarrow> int \<times> int \<Rightarrow> pyfloat \<Rightarrow> image \<Rightarrow> image \<Rightarrow> image
    \<Rightarrow> pyerror + pyresult option" where
  "threshold_result ext threshold flux position c0 counts' background' model =
     (case threshold of
        None \<Rightarrow> Inr None
      | Some t \<Rightarrow>
          ebind (flux_item flux position) (\<lambda>seed.
            let c_1 = f_cash ext seed counts' background' model
            in if flt (fsub c0 c_1) t
               then Inr (Some (PyTuple [fsub c0 c_1, fmul seed FLUX_FACTOR, Fin 0]))
               else Inr None))"

text \<open>The choice of the solver by the method string.\<close>

definition fit_amplitude ::
  "externals \<Rightarrow> string \<Rightarrow> image \<Rightarrow> image \<Rightarrow> image \<Rightarrow> image option \<Rightarrow> int \<times> int \<Rightarrow> pyfloat
    \<Rightarrow> pyerror + (pyfloat \<times> nat)" where
  "fit_amplitude ext method counts' background' model flux position rtol =
     (if method = ''root brentq'' then root_amplitude_brentq ext counts' background' model rtol
      else if method = ''root newton''
        then ebind (flux_item flux position) (\<lambda>seed.
               root_amplitude ext counts' background' model seed rtol)
      else if method = ''leastsq iter''
        then leastsq_iter_amplitude ext counts' background' model MAX_NITER rtol
      else Inl ValueError)"

definition dict_item :: "(string \<Rightarrow> pyfloat option) \<Rightarrow> string \<Rightarrow> pyerror + pyfloat" where
  "dict_item d name = (case d name of None \<Rightarrow> Inl KeyError | Some v \<Rightarrow> Inr v)"

text \<open>The entries \<open>ts\<close>, \<open>flux\<close> and \<open>niter\<close> of the result dictionary.\<close>

definition base_result :: "pyfloat \<Rightarrow> nat \<Rightarrow> pyfloat \<Rightarrow> pyfloat \<Rightarrow> string \<Rightarrow> pyfloat option" where
  "base_result amplitude niter c0 c_1 =
     (Map.empty(''ts'' \<mapsto> fmul (fsub c0 c_1) (fsign amplitude),
                ''flux'' \<mapsto> fmul amplitude FLUX_FACTOR,
                ''niter'' \<mapsto> Fin (real niter)))"

text \<open>The entry \<open>flux_err\<close>, by the error method.\<close>

definition add_flux_err ::
  "externals \<Rightarrow> string \<Rightarrow> pyfloat \<Rightarrow> pyfloat \<Rightarrow> pyfloat \<Rightarrow> image \<Rightarrow> image \<Rightarrow> image
    \<Rightarrow> (string \<Rightarrow> pyfloat option) \<Rightarrow> pyerror + (string \<Rightarrow> pyfloat option)" where
  "add_flux_err ext error_method error_sigma amplitude c_1 counts' background' model result =
     (if error_method = ''covar''
        then Inr (result(''flux_err'' \<mapsto>
               fmul (compute_flux_err_covar amplitude counts' background' model) error_sigma))
      else if error_method = ''conf''
        then ebind (compute_flux_err_conf ext amplitude counts' background' model c_1 error_sigma)
               (\<lambda>flux_err. Inr (result(''flux_err'' \<mapsto> fmul FLUX_FACTOR flux_err)))
      else Inr result)"

text \<open>The entry \<open>flux_ul\<close>, by the upper limit method.\<close>

definition add_flux_ul ::
  "externals \<Rightarrow> string \<Rightarrow> pyfloat \<Rightarrow> pyfloat \<Rightarrow> pyfloat \<Rightarrow> image \<Rightarrow> image \<Rightarrow> image
    \<Rightarrow> (string \<Rightarrow> pyfloat option) \<Rightarrow> pyerror + (string \<Rightarrow> pyfloat option)" where
  "add_flux_ul ext ul_method ul_sigma amplitude c_1 counts' background' model result =
     (if ul_method = ''covar''
        then ebind (dict_item result ''flux'') (\<lambda>flux_value.
             ebind (dict_item result ''flux_err'') (\<lambda>flux_err.
               Inr (result(''flux_ul'' \<mapsto> fadd flux_value (fmul ul_sigma flux_err)))))
      else if ul_method = ''conf''
        then ebind (compute_flux_err_conf ext amplitude counts' background' model c_1 ul_sigma)
               (\<lambda>flux_ul.
             ebind (dict_item result ''flux'') (\<lambda>flux_value.
               Inr (result(''flux_ul'' \<mapsto> fadd (fmul FLUX_FACTOR flux_ul) flux_value))))
      else Inr result)"

definition ts_value ::
  "externals \<Rightarrow> int \<times> int \<Rightarrow> image \<Rightarrow> image \<Rightarrow> image \<Rightarrow> image \<Rightarrow> image \<Rightarrow> image option
    \<Rightarrow> string \<Rightarrow> string \<Rightarrow> pyfloat \<Rightarrow> string \<Rightarrow> pyfloat \<Rightarrow> pyfloat option \<Rightarrow> pyfloat
    \<Rightarrow> pyerror + pyresult" where
  "ts_value ext position counts exposure background c_0 kern flux
       method error_method error_sigma ul_method ul_sigma threshold rtol =
     (let counts' = extract_array counts (shape kern) position;
          background' = extract_array background (shape kern) position;
          exposure' = extract_array exposure (shape kern) position;
          c_0' = extract_array c_0 (shape kern) position
      in ebind (np_binop fmul exposure' kern) (\<lambda>model.
           let c0 = asum c_0'
           in ebind (threshold_result ext threshold flux position c0 counts' background' model)
                (\<lambda>early.
                  case early of
                    Some r \<Rightarrow> Inr r
                  | None \<Rightarrow>
                      ebind (fit_amplitude ext method counts' background' model flux position rtol)
                        (\<lambda>(amplitude, niter).
                          let c_1 = f_cash ext amplitude counts' background' model
                          in ebind (add_flux_err ext error_method error_sigma amplitude c_1
                                      counts' background' model
                                      (base_result amplitude niter c0 c_1))
                               (\<lambda>result.
                             ebind (add_flux_ul ext ul_method ul_sigma amplitude c_1
                                      counts' background' model result)
                               (\<lambda>result. Inr (PyDict result)))))))"

section \<open>Sky maps and the estimator\<close>

text \<open>
  Modelled from the spec: the map classes (\<open>WcsNDMap\<close>, \<open>WcsGeom\<close>) are outside the
  sources. A map is a geometry and a two-dimensional array; of the geometry only the mean
  pixel scale is ever read. The input maps hold float or integer (also boolean, as 0 and
  1) arrays; the result maps hold floats.
\<close>

record wcsgeom =
  pixel_scale :: pyfloat

record 'a wcsndmap =
  geom :: wcsgeom
  data :: "'a list list"

datatype skymap = FloatMap "pyfloat wcsndmap" | IntMap "int wcsndmap"

fun map_geom :: "skymap \<Rightarrow> wcsgeom" where
  "map_geom (FloatMap m) = geom m"
| "map_geom (IntMap m) = geom m"

text \<open>\<open>m.data.astype(float)\<close>; comparisons and arithmetic on an integer array agree with it.\<close>

fun float_data :: "skymap \<Rightarrow> image" where
  "float_data (FloatMap m) = data m"
| "float_data (IntMap m) = arr_map (\<lambda>v. Fin (real_of_int v)) (data m)"

definition maps_item :: "(string \<Rightarrow> 'a option) \<Rightarrow> string \<Rightarrow> pyerror + 'a" where
  "maps_item maps name = (case maps name of None \<Rightarrow> Inl KeyError | Some m \<Rightarrow> Inr m)"

record parameters =
  p_method :: string
  p_error_method :: string
  p_error_sigma :: pyfloat
  p_ul_method :: string
  p_ul_sigma :: pyfloat
  p_n_jobs :: int
  p_threshold :: "pyfloat option"
  p_rtol :: pyfloat

text \<open>\<open>TSMapEstimator.__init__\<close>: the method and the error method are checked.\<close>

definition TSMapEstimator_init ::
  "string \<Rightarrow> string \<Rightarrow> pyfloat \<Rightarrow> string \<Rightarrow> pyfloat \<Rightarrow> int \<Rightarrow> pyfloat option \<Rightarrow> pyfloat
    \<Rightarrow> pyerror + parameters" where
  "TSMapEstimator_init method error_method error_sigma ul_method ul_sigma n_jobs threshold rtol =
     (if \<not> (method \<in> set [''root brentq'', ''root newton'', ''leastsq iter''])
        then Inl ValueError
      else if \<not> (error_method \<in> set [''covar'', ''conf''])
        then Inl ValueError
      else Inr \<lparr>p_method = method, p_error_method = error_method,
                p_error_sigma = error_sigma, p_ul_method = ul_method, p_ul_sigma = ul_sigma,
                p_n_jobs = n_jobs, p_threshold = threshold, p_rtol = rtol\<rparr>)"

definition flux_default ::
  "externals \<Rightarrow> (string \<Rightarrow> skymap option) \<Rightarrow> image \<Rightarrow> pyerror + pyfloat wcsndmap" where
  "flux_default ext maps kern =
     ebind (maps_item maps ''counts'') (\<lambda>counts_map.
     ebind (maps_item maps ''background'') (\<lambda>background_map.
     ebind (np_binop fsub (float_data counts_map) (float_data background_map)) (\<lambda>excess.
     ebind (maps_item maps ''exposure'') (\<lambda>exposure_map.
     ebind (np_binop fdiv excess (float_data exposure_map)) (\<lambda>flux.
       let flux = fftconvolve ext flux kern;
           norm = asum (arr_map (\<lambda>k. fmul k k) kern)
       in Inr \<lparr>geom = map_geom counts_map,
                data = arr_map (\<lambda>f. fdiv f norm) flux\<rparr>)))))"

text \<open>\<open>a[slice_y, slice_x] = v\<close> for two slices given by their bounds.\<close>

definition set_block :: "'a list list \<Rightarrow> int \<times> int \<Rightarrow> int \<times> int \<Rightarrow> 'a \<Rightarrow> 'a list list" where
  "set_block a slice_y slice_x v =
     map (\<lambda>(j, row).
            if slice_bound (fst slice_y) (length a) \<le> j \<and> j < slice_bound (snd slice_y) (length a)
            then map (\<lambda>(i, u).
                        if slice_bound (fst slice_x) (length row) \<le> i
                           \<and> i < slice_bound (snd slice_x) (length row)
                        then v else u)
                   (enumerate 0 row)
            else row)
       (enumerate 0 a)"

definition mask_default ::
  "(string \<Rightarrow> skymap option) \<Rightarrow> image \<Rightarrow> pyerror + int wcsndmap" where
  "mask_default maps kern =
     ebind (maps_item maps ''exposure'') (\<lambda>exposure_map.
       let zeros = full (shape (float_data exposure_map)) (0 :: int);
           slice_x = (int (snd (shape kern) div 2), (- int (snd (shape kern))) div 2 + 1);
           slice_y = (int (fst (shape kern) div 2), (- int (fst (shape kern))) div 2 + 1);
           boundary = set_block zeros slice_y slice_x 1;
           exposed = arr_map2 (\<lambda>m e. m AND (if fgt e (Fin 0) then 1 else 0))
                       boundary (float_data exposure_map)
       in ebind (maps_item maps ''background'') (\<lambda>background_map.
            if map length (float_data background_map) = map length exposed
            then Inr \<lparr>geom = map_geom exposure_map,
                      data = arr_map2 (\<lambda>m b. if feq b (Fin 0) then 0 else m)
                               exposed (float_data background_map)\<rparr>
            else Inl IndexError))"

definition sqrt_ts :: "pyfloat wcsndmap \<Rightarrow> pyfloat wcsndmap" where
  "sqrt_ts map_ts =
     \<lparr>geom = geom map_ts,
      data = arr_map (\<lambda>ts. if fgt ts (Fin 0) then fsqrt ts else fneg (fsqrt (fneg ts)))
               (data map_ts)\<rparr>"

datatype which_arg = All | Names "string list"

text \<open>\<open>np.where\<close> of a two-dimensional array: the indices of the non-zero entries, by rows.\<close>

definition np_where :: "int list list \<Rightarrow> (nat \<times> nat) list" where
  "np_where m =
     concat (map (\<lambda>j. map (\<lambda>i. (j, i)) (filter (\<lambda>i. m ! j ! i \<noteq> 0) [0..<length (m ! j)]))
               [0..<length m])"

text \<open>\<open>a[j, i] = values\<close> for the index lists \<open>j\<close>, \<open>i\<close> of the positions.\<close>

fun set_items :: "'a list list \<Rightarrow> (nat \<times> nat) list \<Rightarrow> 'a list \<Rightarrow> pyerror + 'a list list" where
  "set_items a [] vs = Inr a"
| "set_items a (pos # ps) [] = Inr a"
| "set_items a (pos # ps) (v # vs) =
     (if fst pos < length a \<and> snd pos < length (a ! fst pos)
      then set_items (a[fst pos := (a ! fst pos)[snd pos := v]]) ps vs
      else Inl IndexError)"

text \<open>The result maps of \<open>run\<close> before any pixel is evaluated: NaN everywhere.\<close>

definition init_result ::
  "(string \<Rightarrow> skymap option) \<Rightarrow> string list \<Rightarrow> pyerror + (string \<Rightarrow> pyfloat wcsndmap option)" where
  "init_result maps which =
     (if which = [] then Inr Map.empty
      else ebind (maps_item maps ''counts'') (\<lambda>counts_map.
             Inr (fold (\<lambda>name result.
                          result(name \<mapsto> \<lparr>geom = map_geom counts_map,
                                            data = arr_map (\<lambda>c. NaN) (float_data counts_map)\<rparr>))
                    which Map.empty)))"

text \<open>The processing mask of \<open>run\<close>: the default mask, and the caller's when there is one.\<close>

definition run_mask :: "(string \<Rightarrow> skymap option) \<Rightarrow> image \<Rightarrow> pyerror + int list list" where
  "run_mask maps kern =
     ebind (mask_default maps kern) (\<lambda>mask_map.
       case maps ''mask'' of
         None \<Rightarrow> Inr (data mask_map)
       | Some (IntMap user) \<Rightarrow>
           if map length (data user) = map length (data mask_map)
           then Inr (arr_map2 (\<lambda>m u. m AND u) (data mask_map) (data user))
           else Inl ValueError
       | Some (FloatMap user) \<Rightarrow> Inl TypeError)"

text \<open>One statement \<open>result[name].data[j, i] = [_[name] for _ in results]\<close>.\<close>

definition store_values ::
  "string \<Rightarrow> (nat \<times> nat) list \<Rightarrow> pyresult list \<Rightarrow> (string \<Rightarrow> pyfloat wcsndmap option)
    \<Rightarrow> pyerror + (string \<Rightarrow> pyfloat wcsndmap option)" where
  "store_values name positions results result =
     ebind (emap (\<lambda>r. result_item r name) results) (\<lambda>values.
     ebind (maps_item result name) (\<lambda>m.
     ebind (set_items (data m) positions values) (\<lambda>d.
       Inr (result(name \<mapsto> m\<lparr>data := d\<rparr>)))))"

text \<open>
  The positions \<open>run\<close> evaluates and the evaluator's result at each, in the order of
  \<open>pool.map\<close>. A pool needs at least one process.
\<close>

definition run_pixels ::
  "externals \<Rightarrow> parameters \<Rightarrow> (string \<Rightarrow> skymap option) \<Rightarrow> image \<Rightarrow> string list
    \<Rightarrow> pyerror + ((nat \<times> nat) list \<times> pyresult list)" where
  "run_pixels ext p maps kern which =
     ebind (run_mask maps kern) (\<lambda>mask_data.
     ebind (if p_method p = ''root newton''
            then ebind (flux_default ext maps kern) (\<lambda>f. Inr (Some (data f)))
            else Inr None) (\<lambda>flux.
     ebind (maps_item maps ''counts'') (\<lambda>counts_map.
     ebind (maps_item maps ''background'') (\<lambda>background_map.
     ebind (maps_item maps ''exposure'') (\<lambda>exposure_map.
       let counts = float_data counts_map;
           background = float_data background_map;
           exposure = float_data exposure_map;
           c_0 = cash_cython ext counts background;
           error_method = (if ''flux_err'' \<in> set which then p_error_method p else ''none'');
           ul_method = (if ''flux_ul'' \<in> set which then p_ul_method p else ''none'');
           positions = np_where mask_data
       in if p_n_jobs p < 1 then Inl ValueError
          else ebind (emap (\<lambda>pos. ts_value ext (int (fst pos), int (snd pos))
                                     counts exposure background c_0 kern flux (p_method p)
                                     error_method (p_error_sigma p) ul_method (p_ul_sigma p)
                                     (p_threshold p) (p_rtol p))
                        positions)
                 (\<lambda>results. Inr (positions, results)))))))"

text \<open>The names \<open>run\<close> computes: the argument \<open>which\<close>, or all six for \<open>'all'\<close>.\<close>

definition which_names :: "which_arg \<Rightarrow> string list" where
  "which_names which_arg =
     (case which_arg of
        All \<Rightarrow> [''ts'', ''sqrt_ts'', ''flux'', ''flux_err'', ''flux_ul'', ''niter'']
      | Names names \<Rightarrow> names)"

text \<open>
  The end of \<open>run\<close>: the values of the pixels are written into the result maps.
  Unpacking \<open>zip(*positions)\<close> into two names fails on an empty list.
\<close>

definition collect_results ::
  "string list \<Rightarrow> (nat \<times> nat) list \<Rightarrow> pyresult list \<Rightarrow> (string \<Rightarrow> pyfloat wcsndmap option)
    \<Rightarrow> pyerror + (string \<Rightarrow> pyfloat wcsndmap option)" where
  "collect_results which positions results result =
     (if positions = [] then Inl ValueError
      else
        ebind (store_values ''ts'' positions results result) (\<lambda>result.
        ebind (store_values ''flux'' positions results result) (\<lambda>result.
        ebind (store_values ''niter'' positions results result) (\<lambda>result.
        ebind (if ''flux_err'' \<in> set which
               then store_values ''flux_err'' positions results result
               else Inr result) (\<lambda>result.
        ebind (if ''flux_ul'' \<in> set which
               then store_values ''flux_ul'' positions results result
               else Inr result) (\<lambda>result.
          if ''sqrt_ts'' \<in> set which
          then ebind (maps_item result ''ts'') (\<lambda>map_ts.
                 Inr (result(''sqrt_ts'' \<mapsto> sqrt_ts map_ts)))
          else Inr result))))))"

text \<open>
  The kernel argument of \<open>run\<close>: a \<open>Kernel2D\<close>, given by its array, or a plain array, which
  \<open>run\<close> wraps in a \<open>CustomKernel\<close> first.
\<close>

datatype kernel_arg = Kernel2D image | Array2D image

definition as_kernel :: "externals \<Rightarrow> kernel_arg \<Rightarrow> pyerror + image" where
  "as_kernel ext kernel' =
     (case kernel' of Kernel2D kern \<Rightarrow> Inr kern | Array2D array \<Rightarrow> custom_kernel ext array)"

definition run ::
  "externals \<Rightarrow> parameters \<Rightarrow> (string \<Rightarrow> skymap option) \<Rightarrow> kernel_arg \<Rightarrow> which_arg
    \<Rightarrow> pyerror + (string \<Rightarrow> pyfloat wcsndmap option)" where
  "run ext p maps kernel' which_arg =
     ebind (as_kernel ext kernel') (\<lambda>kern.
       let which = which_names which_arg
       in ebind (init_result maps which) (\<lambda>result.
          ebind (run_pixels ext p maps kern which) (\<lambda>pixels.
            collect_results which (fst pixels) (snd pixels) result)))"

section \<open>The multi-scale images\<close>

text \<open>
  Modelled from the spec: padding, resampling and cropping of a map, the pad width of a
  shape, and the construction of the PSF and source kernels are outside the sources. They
  are parameters; a resampling factor is a number, \<open>preserve_counts\<close> a flag and the
  interpolation order a natural number.
\<close>

record 'psf map_externals =
  map_pad :: "skymap \<Rightarrow> nat \<times> nat \<Rightarrow> skymap"
  map_downsample :: "skymap \<Rightarrow> pyfloat \<Rightarrow> bool \<Rightarrow> skymap"
  map_upsample :: "pyfloat wcsndmap \<Rightarrow> pyfloat \<Rightarrow> bool \<Rightarrow> nat \<Rightarrow> pyfloat wcsndmap"
  map_crop :: "pyfloat wcsndmap \<Rightarrow> nat \<times> nat \<Rightarrow> pyfloat wcsndmap"
  symmetric_crop_pad_width :: "nat \<times> nat \<Rightarrow> nat \<times> nat \<Rightarrow> (nat \<times> nat) \<times> (nat \<times> nat)"
  shape_2N :: "nat \<times> nat \<Rightarrow> nat \<times> nat"
  multi_gauss_psf_kernel :: "'psf \<Rightarrow> pyfloat \<Rightarrow> pyfloat \<Rightarrow> image"
  gaussian2d_kernel :: "pyfloat \<Rightarrow> image"
  shell2d_kernel :: "pyfloat \<Rightarrow> pyfloat \<Rightarrow> image \<Rightarrow> image"
  convolve_normalized :: "image \<Rightarrow> image \<Rightarrow> image"

datatype downsample_arg = Auto | Factor int

text \<open>The body of the loop over \<open>zip(names, orders)\<close>: upsample one result map and crop it.\<close>

definition upsample_step ::
  "'psf map_externals \<Rightarrow> pyfloat \<Rightarrow> nat \<times> nat \<Rightarrow> string \<times> nat
    \<Rightarrow> (string \<Rightarrow> pyfloat wcsndmap option) \<Rightarrow> pyerror + (string \<Rightarrow> pyfloat wcsndmap option)" where
  "upsample_step mx factor pad_width name_order ts_results =
     (let name = fst name_order; order = snd name_order;
          preserve_counts = (name \<in> set [''flux'', ''flux_err''])
      in ebind (maps_item ts_results name) (\<lambda>m.
           let ts_results = ts_results(name \<mapsto> map_upsample mx m factor preserve_counts order)
           in ebind (maps_item ts_results name) (\<lambda>m.
                Inr (ts_results(name \<mapsto> map_crop mx m pad_width)))))"

fun upsample_loop ::
  "'psf map_externals \<Rightarrow> pyfloat \<Rightarrow> nat \<times> nat \<Rightarrow> (string \<times> nat) list
    \<Rightarrow> (string \<Rightarrow> pyfloat wcsndmap option) \<Rightarrow> pyerror + (string \<Rightarrow> pyfloat wcsndmap option)" where
  "upsample_loop mx factor pad_width [] ts_results = Inr ts_results"
| "upsample_loop mx factor pad_width (name_order # rest) ts_results =
     ebind (upsample_step mx factor pad_width name_order ts_results)
       (upsample_loop mx factor pad_width rest)"

text \<open>The block \<open>if downsampled: for name, order in zip(...)\<close>; \<open>zip\<close> stops at the shorter list.\<close>

definition upsample_results ::
  "'psf map_externals \<Rightarrow> pyfloat \<Rightarrow> nat \<times> nat \<Rightarrow> (string \<Rightarrow> pyfloat wcsndmap option)
    \<Rightarrow> pyerror + (string \<Rightarrow> pyfloat wcsndmap option)" where
  "upsample_results mx factor pad_width ts_results =
     upsample_loop mx factor pad_width
       (zip [''ts'', ''sqrt_ts'', ''flux'', ''flux_err'', ''niter''] [1, 1, 1, 0])
       ts_results"

text \<open>\<open>np.select\<close> on the four thresholds of the scale, with the default 8.\<close>

definition auto_factor :: "pyfloat \<Rightarrow> pyfloat \<Rightarrow> pyfloat" where
  "auto_factor scale BINSZ =
     (if flt scale (fmul (Fin 5) BINSZ) then Fin 1
      else if flt scale (fmul (Fin 10) BINSZ) then Fin 2
      else if flt scale (fmul (Fin 20) BINSZ) then Fin 4
      else if flt scale (fmul (Fin 40) BINSZ) then Fin 4
      else Fin 8)"

text \<open>The loop \<open>for name in maps\<close> that pads and downsamples every map of the stack.\<close>

definition downsample_maps ::
  "'psf map_externals \<Rightarrow> nat \<times> nat \<Rightarrow> pyfloat \<Rightarrow> (string \<times> skymap) list
    \<Rightarrow> (string \<times> skymap) list" where
  "downsample_maps mx sh factor maps =
     map (\<lambda>(name, m).
            let pad_width = fst (symmetric_crop_pad_width mx sh (shape_2N mx sh));
                padded = map_pad mx m pad_width;
                preserve_counts = (name \<in> set [''counts'', ''background'', ''exclusion''])
            in (name, map_downsample mx padded factor preserve_counts))
       maps"

text \<open>The PSF kernel at the new pixel size, convolved with the source kernel of the scale.\<close>

definition scale_kernel ::
  "'psf map_externals \<Rightarrow> 'psf \<Rightarrow> pyfloat \<Rightarrow> pyfloat \<Rightarrow> pyfloat \<Rightarrow> string \<Rightarrow> pyfloat option
    \<Rightarrow> pyerror + image" where
  "scale_kernel mx psf_parameters BINSZ factor scale morphology width =
     (let kern = multi_gauss_psf_kernel mx psf_parameters BINSZ (fmul BINSZ factor)
      in if fgt scale (Fin 0)
         then (let sigma = fdiv scale (fmul BINSZ factor)
               in if morphology = ''Gaussian2D''
                    then Inr (convolve_normalized mx (gaussian2d_kernel mx sigma) kern)
                  else if morphology = ''Shell2D''
                    then (case width of
                            None \<Rightarrow> Inl TypeError
                          | Some w \<Rightarrow> Inr (convolve_normalized mx (shell2d_kernel mx sigma w kern) kern))
                  else Inl ValueError)
         else Inr kern)"

text \<open>\<open>maps_downsampled['background'].data += maps_downsampled['model'].data\<close>.\<close>

definition add_model_to_background ::
  "(string \<times> skymap) list \<Rightarrow> pyerror + (string \<times> skymap) list" where
  "add_model_to_background maps =
     ebind (maps_item (map_of maps) ''background'') (\<lambda>background_map.
     ebind (maps_item (map_of maps) ''model'') (\<lambda>model_map.
     ebind (np_binop fadd (float_data background_map) (float_data model_map)) (\<lambda>total.
       Inr (map (\<lambda>(name, m).
                   if name = ''background''
                   then (name, FloatMap \<lparr>geom = map_geom background_map, data = total\<rparr>)
                   else (name, m))
              maps))))"

text \<open>
  One pass of the loop over the scales. Without downsampling the stack handed to the
  estimator is the caller's own, so the model added to its background stays there for the
  scales that follow.
\<close>

fun scales_loop ::
  "externals \<Rightarrow> 'psf map_externals \<Rightarrow> parameters \<Rightarrow> 'psf \<Rightarrow> downsample_arg \<Rightarrow> bool \<Rightarrow> string
    \<Rightarrow> pyfloat option \<Rightarrow> pyfloat \<Rightarrow> nat \<times> nat \<Rightarrow> (string \<times> skymap) list \<Rightarrow> pyfloat list
    \<Rightarrow> pyerror + (string \<Rightarrow> pyfloat wcsndmap option) list" where
  "scales_loop ext mx p psf_parameters downsample residual morphology width BINSZ sh maps [] =
     Inr []"
| "scales_loop ext mx p psf_parameters downsample residual morphology width BINSZ sh maps
     (scale # scales) =
     (let factor = (case downsample of
                      Auto \<Rightarrow> auto_factor scale BINSZ
                    | Factor n \<Rightarrow> Fin (real_of_int n));
          downsampled = (factor \<noteq> Fin 1);
          factor = (if downsampled \<and> morphology = ''Shell2D''
                    then fdiv factor (Fin 2) else factor);
          pad_width = fst (symmetric_crop_pad_width mx sh (shape_2N mx sh));
          maps_downsampled = (if downsampled then downsample_maps mx sh factor maps else maps)
      in ebind (scale_kernel mx psf_parameters BINSZ factor scale morphology width) (\<lambda>kern.
         ebind (if residual then add_model_to_background maps_downsampled
                else Inr maps_downsampled) (\<lambda>maps_downsampled.
         ebind (run ext p (map_of maps_downsampled) (Kernel2D kern) All) (\<lambda>ts_results.
         ebind (if downsampled then upsample_results mx factor pad_width ts_results
                else Inr ts_results) (\<lambda>ts_results.
         ebind (scales_loop ext mx p psf_parameters downsample residual morphology width BINSZ sh
                  (if downsampled then maps else maps_downsampled) scales) (\<lambda>rest.
           Inr (ts_results # rest)))))))"

definition compute_ts_image_multiscale ::
  "externals \<Rightarrow> 'psf map_externals \<Rightarrow> (string \<times> skymap) list \<Rightarrow> 'psf \<Rightarrow> pyfloat list
    \<Rightarrow> downsample_arg \<Rightarrow> bool \<Rightarrow> string \<Rightarrow> pyfloat option \<Rightarrow> pyerror + parameters
    \<Rightarrow> pyerror + (string \<Rightarrow> pyfloat wcsndmap option) list" where
  "compute_ts_image_multiscale ext mx maps psf_parameters scales downsample residual
       morphology width estimator =
     ebind (maps_item (map_of maps) ''counts'') (\<lambda>counts_map.
       let BINSZ = pixel_scale (map_geom counts_map);
           sh = shape (float_data counts_map)
       in ebind estimator (\<lambda>p.
            scales_loop ext mx p psf_parameters downsample residual morphology width BINSZ sh
              maps scales))"

section \<open>The maximum over the scales\<close>

text \<open>
  One entry of the list \<open>compute_maximum_ts_image\<close> reads: the attributes \<open>ts\<close>, \<open>niter\<close>,
  \<open>amplitude\<close>, \<open>scale\<close> and \<open>morphology\<close> of a result.
\<close>

record scale_result =
  r_ts :: image
  r_niter :: image
  r_amplitude :: image
  r_scale :: pyfloat
  r_morphology :: string

text \<open>\<open>np.max\<close> of the values of one pixel: NaN when one of them is.\<close>

definition np_max :: "pyfloat list \<Rightarrow> pyfloat" where
  "np_max vs =
     foldl (\<lambda>a b. if a = NaN \<or> b = NaN then NaN else if flt a b then b else a) (hd vs) (tl vs)"

text \<open>
  One pass of \<open>for idx_scale, scale in enumerate(scales)\<close>: where this scale's \<open>ts\<close> equals
  the maximum, its scale, \<open>niter\<close> and \<open>amplitude\<close> are written.
\<close>

definition select_scale ::
  "image \<Rightarrow> scale_result \<Rightarrow> image \<times> image \<times> image \<Rightarrow> image \<times> image \<times> image" where
  "select_scale ts_max r acc =
     (case acc of (scale_max, niter_max, amplitude_max) \<Rightarrow>
        let index = arr_map2 feq (r_ts r) ts_max
        in (arr_map2 (\<lambda>hit old. if hit then r_scale r else old) index scale_max,
            arr_map2 (\<lambda>hit new_old. if hit then fst new_old else snd new_old) index
              (arr_map2 Pair (r_niter r) niter_max),
            arr_map2 (\<lambda>hit new_old. if hit then fst new_old else snd new_old) index
              (arr_map2 Pair (r_amplitude r) amplitude_max)))"

text \<open>
  The arrays the function computes before its return statement. \<open>np.dstack\<close> raises on an
  empty list and on arrays of different shapes. The model asks for one shape of all arrays
  of all scales; where only \<open>niter\<close> or \<open>amplitude\<close> differ in shape from \<open>ts\<close>, numpy
  stacks each of the three on its own and the code fails later, in the loop (IndexError)
  or at the return statement.
\<close>

definition maximum_arrays ::
  "scale_result list \<Rightarrow> pyerror + (image \<times> image \<times> image \<times> image)" where
  "maximum_arrays ts_image_results =
     (if ts_image_results = [] then Inl ValueError
      else if list_ex (\<lambda>r. map length (r_ts r) \<noteq> map length (r_ts (hd ts_image_results))
                           \<or> map length (r_niter r) \<noteq> map length (r_ts (hd ts_image_results))
                           \<or> map length (r_amplitude r) \<noteq> map length (r_ts (hd ts_image_results)))
                ts_image_results
        then Inl ValueError
      else
        let first = r_ts (hd ts_image_results);
            ts_max = map (\<lambda>j. map (\<lambda>i. np_max (map (\<lambda>r. r_ts r ! j ! i) ts_image_results))
                                  [0..<length (first ! j)])
                       [0..<length first];
            zeros = arr_map (\<lambda>v. Fin 0) first;
            maxima = foldl (\<lambda>acc r. select_scale ts_max r acc) (zeros, zeros, zeros)
                       ts_image_results
        in Inr (ts_max, maxima))"

text \<open>
  The return statement builds \<open>SkyImageList([SkyImage(...), ...])\<close>; neither name is
  imported or defined in the module, so looking up \<open>SkyImageList\<close> raises NameError.
\<close>

definition compute_maximum_ts_image :: "scale_result list \<Rightarrow> pyerror + (string \<Rightarrow> image option)" where
  "compute_maximum_ts_image ts_image_results =
     ebind (maximum_arrays ts_image_results) (\<lambda>arrays. Inl NameError)"

section \<open>An instance of the external routines\<close>

text \<open>
  Modelled from the spec: the compiled helpers are not in the sources, so the instance
  below follows the spec's description of them. The Cash statistic of a pixel is
  \<open>2 * (model - counts * log(model))\<close>; the root function is its derivative in the
  amplitude up to a constant factor, \<open>\<Sum> model * (counts / total - 1)\<close>;
  \<open>amplitude_min_total\<close> is the amplitude at which the total model first reaches zero;
  the least and the greatest root of a single pixel bracket the root of the sum; the
  least-squares step is the weighted linear fit of \<open>counts - background\<close> by the model.
  These definitions serve to evaluate the model on examples; every general theorem
  quantifies over the external routines.
\<close>

fun flog :: "pyfloat \<Rightarrow> pyfloat" where
  "flog (Fin x) = (if 0 < x then Fin (ln x) else if x = 0 then NInf else NaN)"
| "flog PInf = PInf"
| "flog NInf = NaN"
| "flog NaN = NaN"

definition cash_pixel :: "pyfloat \<Rightarrow> pyfloat \<Rightarrow> pyfloat" where
  "cash_pixel c m = fmul (Fin 2) (fsub m (fmul c (flog m)))"

definition fmin :: "pyfloat \<Rightarrow> pyfloat \<Rightarrow> pyfloat" where
  "fmin a b = (if flt b a then b else a)"

text \<open>The pixels of a window with a positive model, as triples (counts, background, model).\<close>

definition model_pixels :: "image \<Rightarrow> image \<Rightarrow> image \<Rightarrow> (pyfloat \<times> pyfloat \<times> pyfloat) list" where
  "model_pixels counts background model =
     filter (\<lambda>cbm. fgt (snd (snd cbm)) (Fin 0))
       (zip (concat counts) (zip (concat background) (concat model)))"

definition spec_amplitude_bounds :: "image \<Rightarrow> image \<Rightarrow> image \<Rightarrow> pyfloat \<times> pyfloat \<times> pyfloat" where
  "spec_amplitude_bounds counts background model =
     (let pixels = model_pixels counts background model;
          roots = map (\<lambda>cbm. fdiv (fsub (fst cbm) (fst (snd cbm))) (snd (snd cbm))) pixels;
          floors = map (\<lambda>cbm. fdiv (fst (snd cbm)) (snd (snd cbm))) pixels
      in (fdiv (foldl fmin PInf roots) FLUX_FACTOR,
          fdiv (foldl pymax NInf roots) FLUX_FACTOR,
          fneg (fdiv (foldl fmin PInf floors) FLUX_FACTOR)))"

definition spec_f_cash_root :: "pyfloat \<Rightarrow> image \<Rightarrow> image \<Rightarrow> image \<Rightarrow> pyfloat" where
  "spec_f_cash_root x counts background model =
     foldl fadd (Fin 0)
       (map (\<lambda>cbm. fmul (snd (snd cbm))
                     (fsub (fdiv (fst cbm)
                              (fadd (fst (snd cbm)) (fmul (fmul x FLUX_FACTOR) (snd (snd cbm)))))
                        (Fin 1)))
          (model_pixels counts background model))"

definition spec_x_best_leastsq :: "image \<Rightarrow> image \<Rightarrow> image \<Rightarrow> image \<Rightarrow> pyfloat" where
  "spec_x_best_leastsq counts background model weights =
     fdiv (asum (arr_map2 fdiv (arr_map2 fmul (arr_map2 fsub counts background) model) weights))
          (asum (arr_map2 fdiv (arr_map (\<lambda>m. fmul m m) model) weights))"

text \<open>
  A bracketing root finder with the interface of \<open>brentq\<close>, by bisection: ValueError when
  the function has one sign at both ends, RuntimeError when the iterations run out.
\<close>

fun bisect ::
  "(pyfloat \<Rightarrow> pyfloat) \<Rightarrow> pyfloat \<Rightarrow> pyfloat \<Rightarrow> pyfloat \<Rightarrow> nat \<Rightarrow> nat \<Rightarrow> pyerror + (pyfloat \<times> nat)" where
  "bisect f a b rtol 0 i = Inl RuntimeError"
| "bisect f a b rtol (Suc n) i =
     (let m = fdiv (fadd a b) (Fin 2)
      in if feq (f m) (Fin 0) then Inr (m, i + 1)
         else if flt (fabs (fsub b a)) (fmul (fmul (Fin 2) rtol) (fabs m)) then Inr (m, i + 1)
         else if feq (fsign (f m)) (fsign (f a)) then bisect f m b rtol n (i + 1)
         else bisect f a m rtol n (i + 1))"

definition bisect_brentq ::
  "(pyfloat \<Rightarrow> pyfloat) \<Rightarrow> pyfloat \<Rightarrow> pyfloat \<Rightarrow> nat \<Rightarrow> pyfloat \<Rightarrow> pyerror + (pyfloat \<times> nat)" where
  "bisect_brentq f a b maxiter rtol =
     (if fgt (fmul (f a) (f b)) (Fin 0) then Inl ValueError
      else if feq (f a) (Fin 0) then Inr (a, 0)
      else if feq (f b) (Fin 0) then Inr (b, 0)
      else bisect f a b rtol maxiter 0)"

text \<open>
  A root finder with the interface of \<open>newton\<close> without a derivative, by the secant
  method from the seed and a second point next to it.
\<close>

fun secant :: "(pyfloat \<Rightarrow> pyfloat) \<Rightarrow> pyfloat \<Rightarrow> pyfloat \<Rightarrow> pyfloat \<Rightarrow> nat \<Rightarrow> pyerror + pyfloat" where
  "secant f p0 p1 tol 0 = Inl RuntimeError"
| "secant f p0 p1 tol (Suc n) =
     (if feq (f p1) (f p0) then Inr (fdiv (fadd p1 p0) (Fin 2))
      else let p = fsub p1 (fdiv (fmul (f p1) (fsub p1 p0)) (fsub (f p1) (f p0)))
           in if flt (fabs (fsub p p1)) tol then Inr p else secant f p1 p tol n)"

definition secant_newton ::
  "(pyfloat \<Rightarrow> pyfloat) \<Rightarrow> pyfloat \<Rightarrow> nat \<Rightarrow> pyfloat \<Rightarrow> pyerror + pyfloat" where
  "secant_newton f x0 maxiter tol =
     secant f x0
       (fadd (fmul x0 (Fin (1 + 1 / 10 ^ 4)))
             (if flt x0 (Fin 0) then Fin (- (1 / 10 ^ 4)) else Fin (1 / 10 ^ 4)))
       tol maxiter"

text \<open>
  The convolution of an image with a kernel, cut to the image (mode \<open>'same'\<close>). The
  transform behind \<open>fftconvolve\<close> mixes all entries, so one entry that is not finite makes
  every entry of the result NaN.
\<close>

definition pixel_or_zero :: "image \<Rightarrow> int \<Rightarrow> int \<Rightarrow> pyfloat" where
  "pixel_or_zero a j i =
     (if 0 \<le> j \<and> j < int (length a) \<and> 0 \<le> i \<and> i < int (length (a ! nat j))
      then a ! nat j ! nat i else Fin 0)"

definition convolve_same :: "image \<Rightarrow> image \<Rightarrow> image" where
  "convolve_same a k =
     (if list_all isfinite (concat a) \<and> list_all isfinite (concat k)
      then map (\<lambda>j. map (\<lambda>i.
                  foldl fadd (Fin 0)
                    (concat (map (\<lambda>u. map (\<lambda>v.
                         fmul (pixel_or_zero a (int j + int ((length k - 1) div 2) - int u)
                                               (int i + int ((length (k ! u) - 1) div 2) - int v))
                              (k ! u ! v))
                       [0..<length (k ! u)]) [0..<length k])))
                [0..<length (a ! j)])
             [0..<length a]
      else arr_map (\<lambda>v. NaN) a)"

text \<open>
  \<open>CustomKernel\<close> takes an array whose axes all have odd length and raises
  \<open>KernelSizeError\<close> on any other.
\<close>

definition odd_kernel :: "image \<Rightarrow> pyerror + image" where
  "odd_kernel array =
     (if odd (fst (shape array)) \<and> odd (snd (shape array)) then Inr array
      else Inl KernelSizeError)"

definition spec_externals :: externals where
  "spec_externals =
     \<lparr>cash_cython = arr_map2 cash_pixel,
      cash_sum_cython = (\<lambda>counts model. asum (arr_map2 cash_pixel counts model)),
      amplitude_bounds_cython = spec_amplitude_bounds,
      f_cash_root_cython = spec_f_cash_root,
      x_best_leastsq = spec_x_best_leastsq,
      brentq = bisect_brentq,
      newton = secant_newton,
      fftconvolve = convolve_same,
      custom_kernel = odd_kernel\<rparr>"

section \<open>Example inputs\<close>

text \<open>
  A 3 x 3 image with no counts, unit background and an exposure of 1e12 (so that
  \<open>FLUX_FACTOR * exposure = 1\<close>), and the 3 x 3 kernel of a point source. The null
  statistic of each pixel is \<open>cash_pixel 0 1 = 2\<close>; the default flux of each pixel is
  \<open>(0 - 1) / 1e12\<close>.
\<close>

definition example_counts :: image where
  "example_counts = [[Fin 0, Fin 0, Fin 0], [Fin 0, Fin 0, Fin 0], [Fin 0, Fin 0, Fin 0]]"

definition example_background :: image where
  "example_background = [[Fin 1, Fin 1, Fin 1], [Fin 1, Fin 1, Fin 1], [Fin 1, Fin 1, Fin 1]]"

definition example_exposure :: image where
  "example_exposure =
     [[Fin 1000000000000, Fin 1000000000000, Fin 1000000000000],
      [Fin 1000000000000, Fin 1000000000000, Fin 1000000000000],
      [Fin 1000000000000, Fin 1000000000000, Fin 1000000000000]]"

definition example_null :: image where
  "example_null = [[Fin 2, Fin 2, Fin 2], [Fin 2, Fin 2, Fin 2], [Fin 2, Fin 2, Fin 2]]"

definition point_kernel :: image where
  "point_kernel = [[Fin 0, Fin 0, Fin 0], [Fin 0, Fin 1, Fin 0], [Fin 0, Fin 0, Fin 0]]"

definition example_model :: image where
  "example_model =
     [[Fin 0, Fin 0, Fin 0], [Fin 0, Fin 1000000000000, Fin 0], [Fin 0, Fin 0, Fin 0]]"

definition example_seed :: image where
  "example_seed =
     [[Fin (- (1 / 1000000000000)), Fin (- (1 / 1000000000000)), Fin (- (1 / 1000000000000))],
      [Fin (- (1 / 1000000000000)), Fin (- (1 / 1000000000000)), Fin (- (1 / 1000000000000))],
      [Fin (- (1 / 1000000000000)), Fin (- (1 / 1000000000000)), Fin (- (1 / 1000000000000))]]"

definition example_geom :: wcsgeom where
  "example_geom = \<lparr>pixel_scale = Fin (1 / 100)\<rparr>"

definition example_maps :: "string \<Rightarrow> skymap option" where
  "example_maps =
     [''counts'' \<mapsto> FloatMap \<lparr>geom = example_geom, data = example_counts\<rparr>,
      ''background'' \<mapsto> FloatMap \<lparr>geom = example_geom, data = example_background\<rparr>,
      ''exposure'' \<mapsto> FloatMap \<lparr>geom = example_geom, data = example_exposure\<rparr>]"

text \<open>The estimator with the Newton solver and a threshold of 10.\<close>

definition threshold_parameters :: parameters where
  "threshold_parameters =
     \<lparr>p_method = ''root newton'', p_error_method = ''covar'', p_error_sigma = Fin 1,
      p_ul_method = ''covar'', p_ul_sigma = Fin 2, p_n_jobs = 1,
      p_threshold = Some (Fin 10), p_rtol = RTOL\<rparr>"

text \<open>
  A window of two pixels with counts 1 and 3 on a background of 1 and a model of \<open>1e12\<close>: the
  derivative of the statistic vanishes at the amplitude 1, inside the bracket from 0 to 2.
\<close>

definition pair_counts :: image where "pair_counts = [[Fin 1, Fin 3]]"

definition pair_background :: image where "pair_background = [[Fin 1, Fin 1]]"

definition pair_model :: image where "pair_model = [[Fin 1000000000000, Fin 1000000000000]]"

text \<open>
  An image of three rows and four columns with counts at \<open>(1, 1)\<close> and \<open>(1, 2)\<close> and no
  exposure at \<open>(1, 2)\<close>; with the point-source kernel the one position evaluated is \<open>(1, 1)\<close>.
  \<open>wide_null\<close> is the statistic of the null hypothesis as used in the evaluation at that
  position, \<open>window_counts\<close> and \<open>window_exposure\<close> are its windows.
\<close>

definition wide_counts :: image where
  "wide_counts = [[Fin 0, Fin 0, Fin 0, Fin 0], [Fin 0, Fin 3, Fin 1, Fin 0], [Fin 0, Fin 0, Fin 0, Fin 0]]"

definition wide_background :: image where
  "wide_background = [[Fin 1, Fin 1, Fin 1, Fin 1], [Fin 1, Fin 1, Fin 1, Fin 1], [Fin 1, Fin 1, Fin 1, Fin 1]]"

definition wide_exposure :: image where
  "wide_exposure =
     [[Fin 1000000000000, Fin 1000000000000, Fin 1000000000000, Fin 1000000000000],
      [Fin 1000000000000, Fin 1000000000000, Fin 0, Fin 1000000000000],
      [Fin 1000000000000, Fin 1000000000000, Fin 1000000000000, Fin 1000000000000]]"

definition wide_null :: image where
  "wide_null = [[Fin 2, Fin 2, Fin 2, Fin 2], [Fin 2, Fin 2, Fin 2, Fin 2], [Fin 2, Fin 2, Fin 2, Fin 2]]"

definition window_counts :: image where
  "window_counts = [[Fin 0, Fin 0, Fin 0], [Fin 0, Fin 3, Fin 1], [Fin 0, Fin 0, Fin 0]]"

definition window_exposure :: image where
  "window_exposure =
     [[Fin 1000000000000, Fin 1000000000000, Fin 1000000000000],
      [Fin 1000000000000, Fin 1000000000000, Fin 0],
      [Fin 1000000000000, Fin 1000000000000, Fin 1000000000000]]"

definition wide_maps :: "string \<Rightarrow> skymap option" where
  "wide_maps =
     [''counts'' \<mapsto> FloatMap \<lparr>geom = example_geom, data = wide_counts\<rparr>,
      ''background'' \<mapsto> FloatMap \<lparr>geom = example_geom, data = wide_background\<rparr>,
      ''exposure'' \<mapsto> FloatMap \<lparr>geom = example_geom, data = wide_exposure\<rparr>]"

text \<open>
  The same counts on a background that is zero at \<open>(1, 2)\<close>, with exposure everywhere.
  \<open>hole_null\<close> is the statistic of the null hypothesis on it, infinite at \<open>(1, 2)\<close>;
  \<open>window_background\<close> and \<open>window_null\<close> are the windows at \<open>(1, 1)\<close>.
\<close>

definition hole_background :: image where
  "hole_background = [[Fin 1, Fin 1, Fin 1, Fin 1], [Fin 1, Fin 1, Fin 0, Fin 1], [Fin 1, Fin 1, Fin 1, Fin 1]]"

definition flat_exposure :: image where
  "flat_exposure =
     [[Fin 1000000000000, Fin 1000000000000, Fin 1000000000000, Fin 1000000000000],
      [Fin 1000000000000, Fin 1000000000000, Fin 1000000000000, Fin 1000000000000],
      [Fin 1000000000000, Fin 1000000000000, Fin 1000000000000, Fin 1000000000000]]"

definition hole_null :: image where
  "hole_null = [[Fin 2, Fin 2, Fin 2, Fin 2], [Fin 2, Fin 2, PInf, Fin 2], [Fin 2, Fin 2, Fin 2, Fin 2]]"

definition window_background :: image where
  "window_background = [[Fin 1, Fin 1, Fin 1], [Fin 1, Fin 1, Fin 0], [Fin 1, Fin 1, Fin 1]]"

definition window_null :: image where
  "window_null = [[Fin 2, Fin 2, Fin 2], [Fin 2, Fin 2, PInf], [Fin 2, Fin 2, Fin 2]]"

definition hole_maps :: "string \<Rightarrow> skymap option" where
  "hole_maps =
     [''counts'' \<mapsto> FloatMap \<lparr>geom = example_geom, data = wide_counts\<rparr>,
      ''background'' \<mapsto> FloatMap \<lparr>geom = example_geom, data = hole_background\<rparr>,
      ''exposure'' \<mapsto> FloatMap \<lparr>geom = example_geom, data = flat_exposure\<rparr>]"

text \<open>
  The estimator with its default arguments, and the same with an upper-limit method that the
  per-pixel evaluator does not know.
\<close>

definition default_parameters :: parameters where
  "default_parameters =
     \<lparr>p_method = ''root brentq'', p_error_method = ''covar'', p_error_sigma = Fin 1,
      p_ul_method = ''covar'', p_ul_sigma = Fin 2, p_n_jobs = 1,
      p_threshold = None, p_rtol = RTOL\<rparr>"

definition profile_parameters :: parameters where
  "profile_parameters =
     \<lparr>p_method = ''root brentq'', p_error_method = ''covar'', p_error_sigma = Fin 1,
      p_ul_method = ''profile'', p_ul_sigma = Fin 2, p_n_jobs = 1,
      p_threshold = None, p_rtol = RTOL\<rparr>"

section \<open>Auxiliary predicates\<close>

text \<open>Every result map that covers the pixel \<open>(j, i)\<close> holds NaN there.\<close>

definition nan_at :: "nat \<Rightarrow> nat \<Rightarrow> (string \<Rightarrow> pyfloat wcsndmap option) \<Rightarrow> bool" where
  "nan_at j i result =
     (\<forall>name m. result name = Some m \<longrightarrow> j < length (data m) \<longrightarrow> i < length (data m ! j)
        \<longrightarrow> data m ! j ! i = NaN)"

text \<open>The result of a pixel is a dictionary; it is one with the key \<open>name\<close>.\<close>

fun is_dict :: "pyresult \<Rightarrow> bool" where
  "is_dict (PyDict d) = True"
| "is_dict (PyTuple vs) = False"

fun has_key :: "string \<Rightarrow> pyresult \<Rightarrow> bool" where
  "has_key name (PyDict d) = (d name \<noteq> None)"
| "has_key name (PyTuple vs) = False"

text \<open>Every result map has rows of the lengths \<open>ls\<close>; every position lies inside such a map.\<close>

definition shaped :: "nat list \<Rightarrow> (string \<Rightarrow> pyfloat wcsndmap option) \<Rightarrow> bool" where
  "shaped ls result = (\<forall>name m. result name = Some m \<longrightarrow> map length (data m) = ls)"

definition in_shape :: "nat list \<Rightarrow> (nat \<times> nat) list \<Rightarrow> bool" where
  "in_shape ls ps = (\<forall>pos \<in> set ps. fst pos < length ls \<and> snd pos < ls ! fst pos)"

text \<open>The maps of \<open>r\<close> have the shape \<open>ls\<close>, and every name of \<open>r0\<close> is still one of \<open>r\<close>.\<close>

definition keeps :: "(string \<Rightarrow> pyfloat wcsndmap option) \<Rightarrow> nat list
    \<Rightarrow> (string \<Rightarrow> pyfloat wcsndmap option) \<Rightarrow> bool" where
  "keeps r0 ls r = (shaped ls r \<and> (\<forall>name. r0 name \<noteq> None \<longrightarrow> r name \<noteq> None))"

text \<open>The entry of the result map \<open>name\<close> at the pixel \<open>(j, i)\<close>, when the run returned the map.\<close>

definition output_at ::
  "pyerror + (string \<Rightarrow> pyfloat wcsndmap option) \<Rightarrow> string \<Rightarrow> nat \<Rightarrow> nat \<Rightarrow> pyfloat option" where
  "output_at outcome name j i =
     (case outcome of
        Inl e \<Rightarrow> None
      | Inr result \<Rightarrow> (case result name of None \<Rightarrow> None | Some m \<Rightarrow> Some (data m ! j ! i)))"

section \<open>Basic facts\<close>

lemma ebind_Inl [simp]: "ebind (Inl e) f = Inl e"
  by (simp add: ebind_def)

lemma ebind_Inr [simp]: "ebind (Inr v) f = f v"
  by (simp add: ebind_def)

lemma ebind_InrE:
  assumes "ebind m f = Inr r"
  obtains v where "m = Inr v" and "f v = Inr r"
  using assms by (cases m) simp_all

lemma ebind_eq_Inr: "ebind m f = Inr r \<longleftrightarrow> (\<exists>v. m = Inr v \<and> f v = Inr r)"
  by (cases m) simp_all

lemma np_where_iff:
  "(j, i) \<in> set (np_where m) \<longleftrightarrow> j < length m \<and> i < length (m ! j) \<and> m ! j ! i \<noteq> 0"
  by (auto simp: np_where_def)

lemma arr_map2_length: "length (arr_map2 f a b) = min (length a) (length b)"
  by (simp add: arr_map2_def)

lemma arr_map2_row_length:
  "j < length (arr_map2 f a b) \<Longrightarrow> length (arr_map2 f a b ! j) = min (length (a ! j)) (length (b ! j))"
  by (simp add: arr_map2_def)

lemma arr_map2_nth:
  "j < length (arr_map2 f a b) \<Longrightarrow> i < length (arr_map2 f a b ! j)
   \<Longrightarrow> arr_map2 f a b ! j ! i = f (a ! j ! i) (b ! j ! i)"
  by (simp add: arr_map2_def)

lemma mask_default_zero:
  assumes "mask_default maps kern = Inr mm"
      and "maps ''background'' = Some bg" and "maps ''exposure'' = Some ex"
      and "j < length (data mm)" and "i < length (data mm ! j)"
      and "feq (float_data bg ! j ! i) (Fin 0) \<or> \<not> fgt (float_data ex ! j ! i) (Fin 0)"
  shows "data mm ! j ! i = 0"
  using assms
  by (auto simp: mask_default_def maps_item_def Let_def arr_map2_nth arr_map2_length arr_map2_row_length split: if_splits)

lemma mask_default_range:
  assumes "mask_default maps kern = Inr mm" and "maps ''exposure'' = Some ex"
      and "j < length (data mm)" and "i < length (data mm ! j)"
  shows "j < length (float_data ex) \<and> i < length (float_data ex ! j)"
  using assms
  by (auto simp: mask_default_def maps_item_def Let_def arr_map2_length arr_map2_row_length split: if_splits option.splits)

lemma run_mask_zero:
  assumes "run_mask maps kern = Inr md"
      and "maps ''background'' = Some bg" and "maps ''exposure'' = Some ex"
      and "j < length md" and "i < length (md ! j)"
      and "feq (float_data bg ! j ! i) (Fin 0) \<or> \<not> fgt (float_data ex ! j ! i) (Fin 0)"
  shows "md ! j ! i = 0"
proof -
  from assms(1) obtain mm where mm: "mask_default maps kern = Inr mm"
    by (auto simp: run_mask_def ebind_eq_Inr)
  show ?thesis
  proof (cases "maps ''mask''")
    case None
    with assms(1) mm have "md = data mm" by (simp add: run_mask_def)
    with mask_default_zero[OF mm assms(2,3) _ _ assms(6)] assms(4,5) show ?thesis by simp
  next
    case (Some um)
    show ?thesis
    proof (cases um)
      case (FloatMap u)
      with Some assms(1) mm show ?thesis by (simp add: run_mask_def)
    next
      case (IntMap u)
      with Some assms(1) mm have md: "md = arr_map2 (\<lambda>m u. m AND u) (data mm) (data u)"
        by (simp add: run_mask_def split: if_splits)
      from assms(4,5) md have r: "j < length (data mm)" "i < length (data mm ! j)"
        by (simp_all add: arr_map2_length arr_map2_row_length)
      from mask_default_zero[OF mm assms(2,3) r assms(6)] md assms(4,5)
      show ?thesis by (simp add: arr_map2_nth)
    qed
  qed
qed

lemma run_mask_range:
  assumes "run_mask maps kern = Inr md" and "maps ''exposure'' = Some ex"
      and "j < length md" and "i < length (md ! j)"
  shows "j < length (float_data ex) \<and> i < length (float_data ex ! j)"
proof -
  from assms(1) obtain mm where mm: "mask_default maps kern = Inr mm"
    by (auto simp: run_mask_def ebind_eq_Inr)
  from assms(1) mm have "md = data mm \<or> (\<exists>u. md = arr_map2 (\<lambda>m u. m AND u) (data mm) u)"
    by (auto simp: run_mask_def split: option.splits skymap.splits if_splits)
  with assms(3,4) have "j < length (data mm) \<and> i < length (data mm ! j)"
    by (auto simp: arr_map2_length arr_map2_row_length)
  with mask_default_range[OF mm assms(2)] show ?thesis by blast
qed

lemma set_items_other:
  "set_items a ps vs = Inr a' \<Longrightarrow> (j, i) \<notin> set ps
   \<Longrightarrow> a' ! j ! i = a ! j ! i \<and> length a' = length a \<and> length (a' ! j) = length (a ! j)"
proof (induction a ps vs rule: set_items.induct)
  case (1 a vs)
  then show ?case by simp
next
  case (2 a pos ps)
  then show ?case by simp
next
  case (3 a pos ps v vs)
  from "3.prems" have ok: "fst pos < length a" "snd pos < length (a ! fst pos)"
    and rest: "set_items (a[fst pos := (a ! fst pos)[snd pos := v]]) ps vs = Inr a'"
    by (simp_all split: if_splits)
  from "3.prems" have ne: "(j, i) \<noteq> pos" "(j, i) \<notin> set ps" by auto
  from "3.IH"[OF _ rest ne(2)] ok
  have ih: "a' ! j ! i = a[fst pos := (a ! fst pos)[snd pos := v]] ! j ! i"
    "length a' = length a"
    "length (a' ! j) = length (a[fst pos := (a ! fst pos)[snd pos := v]] ! j)"
    by simp_all
  show ?case
  proof (cases "j = fst pos")
    case True
    with ne(1) have "i \<noteq> snd pos" by (cases pos) auto
    with True ih ok show ?thesis by simp
  next
    case False
    with ih show ?thesis by simp
  qed
qed

lemma store_values_nan:
  assumes "store_values name ps results result = Inr result'"
      and "(j, i) \<notin> set ps" and "nan_at j i result"
  shows "nan_at j i result'"
proof -
  from assms(1) obtain vals m d where
    m: "result name = Some m" and d: "set_items (data m) ps vals = Inr d"
    and r': "result' = result(name \<mapsto> m\<lparr>data := d\<rparr>)"
    by (auto simp: store_values_def ebind_eq_Inr maps_item_def split: option.splits)
  from set_items_other[OF d assms(2)]
  have "d ! j ! i = data m ! j ! i" "length d = length (data m)" "length (d ! j) = length (data m ! j)"
    by simp_all
  with assms(3) m r' show ?thesis
    by (auto simp: nan_at_def)
qed

lemma fold_init_entries:
  "fold (\<lambda>name result. result(name \<mapsto> v)) which r0 name = Some m \<Longrightarrow> m = v \<or> r0 name = Some m"
proof (induction which arbitrary: r0)
  case Nil
  then show ?case by simp
next
  case (Cons a which)
  from Cons.prems have "fold (\<lambda>name result. result(name \<mapsto> v)) which (r0(a \<mapsto> v)) name = Some m"
    by (simp only: fold.simps comp_apply)
  from Cons.IH[OF this] show ?case by (auto split: if_splits)
qed

lemma init_result_nan:
  assumes "init_result maps which = Inr result"
  shows "nan_at j i result"
proof (cases "which = []")
  case True
  with assms show ?thesis by (auto simp: init_result_def nan_at_def)
next
  case False
  with assms obtain cm where
    r: "result = fold (\<lambda>name result. result(name \<mapsto> \<lparr>geom = map_geom cm,
                          data = arr_map (\<lambda>c. NaN) (float_data cm)\<rparr>)) which Map.empty"
    by (auto simp: init_result_def ebind_eq_Inr)
  show ?thesis
    unfolding nan_at_def
  proof (intro allI impI)
    fix name m
    assume "result name = Some m" and "j < length (data m)" and "i < length (data m ! j)"
    with fold_init_entries[of _ which Map.empty name m] r
    have "m = \<lparr>geom = map_geom cm, data = arr_map (\<lambda>c. NaN) (float_data cm)\<rparr>" by auto
    with \<open>j < length (data m)\<close> \<open>i < length (data m ! j)\<close>
    show "data m ! j ! i = NaN" by (simp add: arr_map_def)
  qed
qed

lemma sqrt_ts_nan:
  assumes "nan_at j i result" and "result ''ts'' = Some map_ts"
  shows "nan_at j i (result(''sqrt_ts'' \<mapsto> sqrt_ts map_ts))"
  using assms
  by (auto simp: nan_at_def sqrt_ts_def arr_map_def fgt_def)

lemma run_pixels_positions:
  "run_pixels ext p maps kern which = Inr (ps, rs)
   \<Longrightarrow> \<exists>md. run_mask maps kern = Inr md \<and> ps = np_where md"
  unfolding run_pixels_def Let_def
  by (auto elim!: ebind_InrE split: if_splits)

lemma run_pixels_excluded:
  assumes "run_pixels ext p maps kern which = Inr (ps, rs)"
      and "maps ''background'' = Some bg" and "maps ''exposure'' = Some ex"
      and "feq (float_data bg ! j ! i) (Fin 0) \<or> \<not> fgt (float_data ex ! j ! i) (Fin 0)"
  shows "(j, i) \<notin> set ps"
proof
  assume mem: "(j, i) \<in> set ps"
  from run_pixels_positions[OF assms(1)] obtain md where
    md: "run_mask maps kern = Inr md" and ps: "ps = np_where md" by blast
  from mem ps have r: "j < length md" "i < length (md ! j)" "md ! j ! i \<noteq> 0"
    by (simp_all add: np_where_iff)
  from run_mask_zero[OF md assms(2,3) r(1,2) assms(4)] r(3) show False by simp
qed

lemma collect_results_nan:
  assumes "collect_results which ps rs r0 = Inr result"
      and "(j, i) \<notin> set ps" and "nan_at j i r0"
  shows "nan_at j i result"
proof -
  have step: "\<And>name r r'. store_values name ps rs r = Inr r' \<Longrightarrow> nan_at j i r \<Longrightarrow> nan_at j i r'"
    using store_values_nan assms(2) by blast
  have cstep: "\<And>c name r r'. (if c then store_values name ps rs r else Inr r) = Inr r'
      \<Longrightarrow> nan_at j i r \<Longrightarrow> nan_at j i r'"
    using step by (auto split: if_splits)
  have fstep: "\<And>r r'. (if ''sqrt_ts'' \<in> set which
               then ebind (maps_item r ''ts'') (\<lambda>map_ts. Inr (r(''sqrt_ts'' \<mapsto> sqrt_ts map_ts)))
               else Inr r) = Inr r' \<Longrightarrow> nan_at j i r \<Longrightarrow> nan_at j i r'"
    using sqrt_ts_nan
    by (auto simp: maps_item_def split: if_splits option.splits)
  from assms(1) have ne: "ps \<noteq> []" by (auto simp: collect_results_def)
  from assms(1) ne obtain r1 r2 r3 r4 r5 where
    s1: "store_values ''ts'' ps rs r0 = Inr r1"
    and s2: "store_values ''flux'' ps rs r1 = Inr r2"
    and s3: "store_values ''niter'' ps rs r2 = Inr r3"
    and s4: "(if ''flux_err'' \<in> set which then store_values ''flux_err'' ps rs r3 else Inr r3) = Inr r4"
    and s5: "(if ''flux_ul'' \<in> set which then store_values ''flux_ul'' ps rs r4 else Inr r4) = Inr r5"
    and fin: "(if ''sqrt_ts'' \<in> set which
               then ebind (maps_item r5 ''ts'') (\<lambda>map_ts. Inr (r5(''sqrt_ts'' \<mapsto> sqrt_ts map_ts)))
               else Inr r5) = Inr result"
    unfolding collect_results_def
    apply (simp only: if_False)
    apply (elim ebind_InrE)
    apply blast
    done
  from fstep[OF fin cstep[OF s5 cstep[OF s4 step[OF s3 step[OF s2 step[OF s1 assms(3)]]]]]]
  show ?thesis .
qed

lemma emap_set: "emap f xs = Inr ys \<Longrightarrow> y \<in> set ys \<Longrightarrow> \<exists>x \<in> set xs. f x = Inr y"
  by (induction xs arbitrary: ys) (auto split: sum.splits)

lemma emap_ok: "(\<forall>x \<in> set xs. \<exists>y. f x = Inr y) \<Longrightarrow> \<exists>ys. emap f xs = Inr ys"
  by (induction xs) (auto split: sum.splits)

lemma emap_error: "xs \<noteq> [] \<Longrightarrow> (\<forall>x \<in> set xs. f x = Inl e) \<Longrightarrow> emap f xs = Inl e"
  by (cases xs) auto

lemma result_item_has_key: "has_key name r \<Longrightarrow> \<exists>v. result_item r name = Inr v"
  by (cases r) auto

lemma result_item_no_key: "is_dict r \<Longrightarrow> \<not> has_key name r \<Longrightarrow> result_item r name = Inl KeyError"
  by (cases r) auto

lemma map_length_update:
  "j < length a \<Longrightarrow> i < length (a ! j) \<Longrightarrow> map length (a[j := (a ! j)[i := v]]) = map length a"
  by (simp add: map_update list_update_same_conv)

lemma in_shape_Cons:
  "in_shape ls (pos # ps) \<longleftrightarrow> fst pos < length ls \<and> snd pos < ls ! fst pos \<and> in_shape ls ps"
  by (simp add: in_shape_def)

lemma set_items_ok:
  "in_shape (map length a) ps \<Longrightarrow> \<exists>a'. set_items a ps vs = Inr a' \<and> map length a' = map length a"
proof (induction a ps vs rule: set_items.induct)
  case (1 a vs)
  then show ?case by simp
next
  case (2 a pos ps)
  then show ?case by simp
next
  case (3 a pos ps v vs)
  from "3.prems" have ok: "fst pos < length a" "snd pos < length (a ! fst pos)"
    and rest: "in_shape (map length a) ps"
    by (auto simp: in_shape_Cons)
  let ?a = "a[fst pos := (a ! fst pos)[snd pos := v]]"
  have same: "map length ?a = map length a" by (rule map_length_update[OF ok])
  from rest have "in_shape (map length ?a) ps" unfolding same .
  from "3.IH"[OF _ this] ok same show ?case by auto
qed

lemma store_values_missing_map:
  "\<forall>r \<in> set rs. has_key name r \<Longrightarrow> result name = None
   \<Longrightarrow> store_values name ps rs result = Inl KeyError"
proof -
  assume a: "\<forall>r \<in> set rs. has_key name r" and n: "result name = None"
  from a have "\<forall>r \<in> set rs. \<exists>v. result_item r name = Inr v" by (blast dest: result_item_has_key)
  from emap_ok[OF this] obtain vals where "emap (\<lambda>r. result_item r name) rs = Inr vals" by blast
  with n show ?thesis by (simp add: store_values_def maps_item_def)
qed

lemma store_values_present:
  assumes "\<forall>r \<in> set rs. has_key name r" and "result name = Some m"
      and "shaped ls result" and "in_shape ls ps"
  shows "\<exists>d. store_values name ps rs result = Inr (result(name \<mapsto> m\<lparr>data := d\<rparr>))
             \<and> map length d = ls"
proof -
  from assms(1) have "\<forall>r \<in> set rs. \<exists>v. result_item r name = Inr v" by (blast dest: result_item_has_key)
  from emap_ok[OF this] obtain vals where v: "emap (\<lambda>r. result_item r name) rs = Inr vals" by blast
  from assms(2,3) have ls: "map length (data m) = ls" by (auto simp: shaped_def)
  with assms(4) have "in_shape (map length (data m)) ps" by simp
  from set_items_ok[OF this, of vals] obtain d where
    "set_items (data m) ps vals = Inr d" "map length d = map length (data m)" by blast
  with v assms(2) ls show ?thesis
    by (intro exI[of _ d]) (simp add: store_values_def maps_item_def)
qed

lemma store_values_no_key:
  "rs \<noteq> [] \<Longrightarrow> \<forall>r \<in> set rs. is_dict r \<and> \<not> has_key name r
   \<Longrightarrow> store_values name ps rs result = Inl KeyError"
proof -
  assume ne: "rs \<noteq> []" and a: "\<forall>r \<in> set rs. is_dict r \<and> \<not> has_key name r"
  from a have "\<forall>r \<in> set rs. result_item r name = Inl KeyError" by (blast dest: result_item_no_key)
  from emap_error[OF ne this] show ?thesis by (simp add: store_values_def)
qed

lemma shaped_update:
  "shaped ls result \<Longrightarrow> map length d = ls \<Longrightarrow> shaped ls (result(name \<mapsto> m\<lparr>data := d\<rparr>))"
  by (auto simp: shaped_def)

lemma fold_init_present:
  "name \<in> set which \<or> r0 name \<noteq> None \<Longrightarrow> fold (\<lambda>name result. result(name \<mapsto> v)) which r0 name \<noteq> None"
  by (induction which arbitrary: r0) auto

lemma init_result_shaped:
  assumes "init_result maps which = Inr r0" and "maps ''counts'' = Some c"
  shows "shaped (map length (float_data c)) r0 \<and> (\<forall>name \<in> set which. r0 name \<noteq> None)"
proof (cases "which = []")
  case True
  with assms show ?thesis by (auto simp: init_result_def shaped_def)
next
  case False
  let ?v = "\<lparr>geom = map_geom c, data = arr_map (\<lambda>c. NaN) (float_data c)\<rparr>"
  from False assms have r: "r0 = fold (\<lambda>name result. result(name \<mapsto> ?v)) which Map.empty"
    by (auto simp: init_result_def maps_item_def)
  have "shaped (map length (float_data c)) r0"
    unfolding shaped_def
  proof (intro allI impI)
    fix name m assume "r0 name = Some m"
    with fold_init_entries[of ?v which Map.empty name m] r have "m = ?v" by auto
    then show "map length (data m) = map length (float_data c)" by (simp add: arr_map_def)
  qed
  moreover have "\<forall>name \<in> set which. r0 name \<noteq> None"
    using fold_init_present[of _ which Map.empty ?v] r by blast
  ultimately show ?thesis by blast
qed

lemma emap_length: "emap f xs = Inr ys \<Longrightarrow> length ys = length xs"
  by (induction xs arbitrary: ys) (auto split: sum.splits)

lemma base_result_keys:
  "base_result a n c0 c1 ''ts'' \<noteq> None" "base_result a n c0 c1 ''flux'' \<noteq> None"
  "base_result a n c0 c1 ''niter'' \<noteq> None" "base_result a n c0 c1 ''flux_err'' = None"
  "base_result a n c0 c1 ''flux_ul'' = None"
  by (simp_all add: base_result_def)

lemma add_flux_err_keys:
  "add_flux_err ext em es a c1 c b m r = Inr r' \<Longrightarrow>
   (\<forall>k. k \<noteq> ''flux_err'' \<longrightarrow> r' k = r k)
   \<and> (em = ''covar'' \<or> em = ''conf'' \<longrightarrow> r' ''flux_err'' \<noteq> None)"
  by (auto simp: add_flux_err_def elim!: ebind_InrE split: if_splits)

lemma add_flux_ul_keys:
  "add_flux_ul ext um us a c1 c b m r = Inr r' \<Longrightarrow>
   (\<forall>k. k \<noteq> ''flux_ul'' \<longrightarrow> r' k = r k)
   \<and> (um = ''covar'' \<or> um = ''conf'' \<longrightarrow> r' ''flux_ul'' \<noteq> None)
   \<and> (um \<noteq> ''covar'' \<and> um \<noteq> ''conf'' \<longrightarrow> r' = r)"
  by (auto simp: add_flux_ul_def elim!: ebind_InrE split: if_splits)

lemma threshold_result_tuple:
  "threshold_result ext th f pos c0 c b m = Inr (Some r) \<Longrightarrow> \<not> is_dict r"
  by (auto simp: threshold_result_def Let_def elim!: ebind_InrE split: option.splits if_splits)

lemma ts_value_dict_keys:
  assumes "ts_value ext pos c e b c0 k f method em es um us th rtol = Inr r" and "is_dict r"
  shows "has_key ''ts'' r \<and> has_key ''flux'' r \<and> has_key ''niter'' r
         \<and> (em = ''covar'' \<or> em = ''conf'' \<longrightarrow> has_key ''flux_err'' r)
         \<and> (um = ''covar'' \<or> um = ''conf'' \<longrightarrow> has_key ''flux_ul'' r)
         \<and> (um \<noteq> ''covar'' \<and> um \<noteq> ''conf'' \<longrightarrow> \<not> has_key ''flux_ul'' r)"
proof -
  from assms(1) obtain model early where
    th: "threshold_result ext th f pos (asum (extract_array c0 (shape k) pos))
           (extract_array c (shape k) pos) (extract_array b (shape k) pos) model = Inr early"
    and rest: "(case early of Some r \<Rightarrow> Inr r
        | None \<Rightarrow> ebind (fit_amplitude ext method (extract_array c (shape k) pos)
                          (extract_array b (shape k) pos) model f pos rtol)
            (\<lambda>(amplitude, niter).
               let c_1 = f_cash ext amplitude (extract_array c (shape k) pos)
                           (extract_array b (shape k) pos) model
               in ebind (add_flux_err ext em es amplitude c_1 (extract_array c (shape k) pos)
                           (extract_array b (shape k) pos) model
                           (base_result amplitude niter (asum (extract_array c0 (shape k) pos)) c_1))
                    (\<lambda>result. ebind (add_flux_ul ext um us amplitude c_1
                           (extract_array c (shape k) pos) (extract_array b (shape k) pos) model result)
                       (\<lambda>result. Inr (PyDict result))))) = Inr r"
    unfolding ts_value_def Let_def by (elim ebind_InrE)
  show ?thesis
  proof (cases early)
    case (Some r')
    with rest th threshold_result_tuple assms(2) show ?thesis by auto
  next
    case None
    with rest obtain a n r1 r2 where
      e1: "add_flux_err ext em es a (f_cash ext a (extract_array c (shape k) pos)
                           (extract_array b (shape k) pos) model) (extract_array c (shape k) pos)
                           (extract_array b (shape k) pos) model
                           (base_result a n (asum (extract_array c0 (shape k) pos))
                              (f_cash ext a (extract_array c (shape k) pos)
                           (extract_array b (shape k) pos) model)) = Inr r1"
      and e2: "add_flux_ul ext um us a (f_cash ext a (extract_array c (shape k) pos)
                           (extract_array b (shape k) pos) model)
                           (extract_array c (shape k) pos) (extract_array b (shape k) pos) model r1 = Inr r2"
      and r: "r = PyDict r2"
      by (auto simp: Let_def elim!: ebind_InrE)
    from add_flux_err_keys[OF e1] add_flux_ul_keys[OF e2] r show ?thesis
      by (auto simp: base_result_keys)
  qed
qed

lemma run_pixels_results:
  assumes "run_pixels ext p maps kern which = Inr (ps, rs)" and "r \<in> set rs"
  shows "\<exists>pos c e b c0 f.
     ts_value ext pos c e b c0 kern f (p_method p)
       (if ''flux_err'' \<in> set which then p_error_method p else ''none'') (p_error_sigma p)
       (if ''flux_ul'' \<in> set which then p_ul_method p else ''none'') (p_ul_sigma p)
       (p_threshold p) (p_rtol p) = Inr r"
proof -
  from assms(1) obtain md fl cm bm em where
    "(if p_n_jobs p < 1 then Inl ValueError
      else ebind (emap (\<lambda>pos. ts_value ext (int (fst pos), int (snd pos))
                                 (float_data cm) (float_data em) (float_data bm)
                                 (cash_cython ext (float_data cm) (float_data bm)) kern fl
                                 (p_method p)
                                 (if ''flux_err'' \<in> set which then p_error_method p else ''none'')
                                 (p_error_sigma p)
                                 (if ''flux_ul'' \<in> set which then p_ul_method p else ''none'')
                                 (p_ul_sigma p) (p_threshold p) (p_rtol p))
                    (np_where md))
             (\<lambda>results. Inr (np_where md, results))) = Inr (ps, rs)"
    unfolding run_pixels_def Let_def by (elim ebind_InrE)
  then have "emap (\<lambda>pos. ts_value ext (int (fst pos), int (snd pos))
                                 (float_data cm) (float_data em) (float_data bm)
                                 (cash_cython ext (float_data cm) (float_data bm)) kern fl
                                 (p_method p)
                                 (if ''flux_err'' \<in> set which then p_error_method p else ''none'')
                                 (p_error_sigma p)
                                 (if ''flux_ul'' \<in> set which then p_ul_method p else ''none'')
                                 (p_ul_sigma p) (p_threshold p) (p_rtol p))
                    (np_where md) = Inr rs"
    by (cases "p_n_jobs p < 1") (auto elim!: ebind_InrE)
  from emap_set[OF this assms(2)] show ?thesis by blast
qed

lemma run_pixels_length:
  "run_pixels ext p maps kern which = Inr (ps, rs) \<Longrightarrow> length rs = length ps"
  unfolding run_pixels_def Let_def
  by (auto elim!: ebind_InrE split: if_splits dest: emap_length)

lemma run_pixels_in_shape:
  assumes "run_pixels ext p maps kern which = Inr (ps, rs)" and "maps ''exposure'' = Some ex"
  shows "in_shape (map length (float_data ex)) ps"
proof -
  from run_pixels_positions[OF assms(1)] obtain md where
    md: "run_mask maps kern = Inr md" and ps: "ps = np_where md" by blast
  show ?thesis
    unfolding in_shape_def
  proof
    fix pos assume "pos \<in> set ps"
    with ps have "fst pos < length md \<and> snd pos < length (md ! fst pos)"
      by (cases pos) (simp add: np_where_iff)
    with run_mask_range[OF md assms(2)]
    have "fst pos < length (float_data ex) \<and> snd pos < length (float_data ex ! fst pos)"
      by blast
    then show "fst pos < length (map length (float_data ex))
          \<and> snd pos < map length (float_data ex) ! fst pos" by simp
  qed
qed

lemma ebind_KeyError:
  assumes "m = Inl KeyError \<or> (\<exists>v. m = Inr v \<and> P v)"
      and "\<And>v. P v \<Longrightarrow> f v = Inl KeyError"
  shows "ebind m f = Inl KeyError"
  using assms by auto

lemma store_values_step:
  assumes "\<forall>r \<in> set rs. has_key name r" and "shaped ls result" and "in_shape ls ps"
  shows "store_values name ps rs result = Inl KeyError
         \<or> (\<exists>result'. store_values name ps rs result = Inr result' \<and> shaped ls result')"
proof (cases "result name")
  case None
  from store_values_missing_map[of rs name result ps, OF assms(1) None] show ?thesis by simp
next
  case (Some m)
  from store_values_present[of rs name result m ls ps, OF assms(1) Some assms(2,3)] obtain d where
    "store_values name ps rs result = Inr (result(name \<mapsto> m\<lparr>data := d\<rparr>))" "map length d = ls"
    by blast
  with shaped_update[OF assms(2), of d name m] show ?thesis by simp
qed

lemma collect_results_KeyError:
  assumes ne: "ps \<noteq> []" "rs \<noteq> []"
      and keys: "\<forall>r \<in> set rs. has_key ''ts'' r" "\<forall>r \<in> set rs. has_key ''flux'' r"
                "\<forall>r \<in> set rs. has_key ''niter'' r"
      and err: "''flux_err'' \<in> set which \<Longrightarrow> \<forall>r \<in> set rs. has_key ''flux_err'' r"
      and ul: "''flux_ul'' \<in> set which" "\<forall>r \<in> set rs. is_dict r \<and> \<not> has_key ''flux_ul'' r"
      and sh: "shaped ls r0" "in_shape ls ps"
  shows "collect_results which ps rs r0 = Inl KeyError"
proof -
  have last: "\<And>r. (if ''flux_ul'' \<in> set which then store_values ''flux_ul'' ps rs r else Inr r)
                = Inl KeyError"
    using ul store_values_no_key[of rs "''flux_ul''", OF ne(2) ul(2)] by simp
  have s4: "\<And>r. shaped ls r \<Longrightarrow>
      (if ''flux_err'' \<in> set which then store_values ''flux_err'' ps rs r else Inr r) = Inl KeyError
      \<or> (\<exists>r'. (if ''flux_err'' \<in> set which then store_values ''flux_err'' ps rs r else Inr r) = Inr r'
              \<and> shaped ls r')"
    using store_values_step[of rs "''flux_err''" ls _ ps, OF err _ sh(2)] by (cases "''flux_err'' \<in> set which") auto
  show ?thesis
    unfolding collect_results_def
    apply (simp only: ne if_False)
    apply (rule ebind_KeyError[where P = "shaped ls"])
     apply (rule store_values_step[of rs "''ts''" ls r0 ps, OF keys(1) sh])
    apply (rule ebind_KeyError[where P = "shaped ls"])
     apply (rule store_values_step[of rs "''flux''" ls _ ps, OF keys(2) _ sh(2)], assumption)
    apply (rule ebind_KeyError[where P = "shaped ls"])
     apply (rule store_values_step[of rs "''niter''" ls _ ps, OF keys(3) _ sh(2)], assumption)
    apply (rule ebind_KeyError[where P = "shaped ls"])
     apply (rule s4, assumption)
    apply (simp add: last)
    done
qed

lemma arr_map_shape: "map length (arr_map f a) = map length a"
  by (induction a) (simp_all add: arr_map_def)

lemma ebind_ok:
  assumes "\<exists>v. m = Inr v \<and> P v"
      and "\<And>v. P v \<Longrightarrow> \<exists>r. f v = Inr r \<and> Q r"
  shows "\<exists>r. ebind m f = Inr r \<and> Q r"
  using assms by auto

lemma store_values_keeps:
  assumes "\<forall>r \<in> set rs. has_key name r" and "keeps r0 ls result" and "in_shape ls ps"
      and "r0 name \<noteq> None"
  shows "\<exists>result'. store_values name ps rs result = Inr result' \<and> keeps r0 ls result'"
proof -
  from assms(2,4) obtain m where m: "result name = Some m" by (auto simp: keeps_def)
  from assms(2) have sh: "shaped ls result" by (simp add: keeps_def)
  from store_values_present[of rs name result m ls ps, OF assms(1) m sh assms(3)] obtain d where
    d: "store_values name ps rs result = Inr (result(name \<mapsto> m\<lparr>data := d\<rparr>))" "map length d = ls"
    by blast
  from shaped_update[OF sh d(2), of name m] assms(2)
  have "keeps r0 ls (result(name \<mapsto> m\<lparr>data := d\<rparr>))" by (auto simp: keeps_def)
  with d show ?thesis by blast
qed

lemma collect_results_ok:
  assumes ne: "ps \<noteq> []"
      and keys: "\<forall>r \<in> set rs. has_key ''ts'' r" "\<forall>r \<in> set rs. has_key ''flux'' r"
                "\<forall>r \<in> set rs. has_key ''niter'' r" "\<forall>r \<in> set rs. has_key ''flux_err'' r"
                "\<forall>r \<in> set rs. has_key ''flux_ul'' r"
      and names: "r0 ''ts'' \<noteq> None" "r0 ''flux'' \<noteq> None" "r0 ''niter'' \<noteq> None"
                 "r0 ''flux_err'' \<noteq> None" "r0 ''flux_ul'' \<noteq> None"
      and sh: "shaped ls r0" "in_shape ls ps"
  shows "\<exists>r. collect_results which ps rs r0 = Inr r \<and> keeps r0 ls r"
proof -
  have k0: "keeps r0 ls r0" using sh(1) by (simp add: keeps_def)
  have c4: "\<And>r. keeps r0 ls r \<Longrightarrow>
      \<exists>r'. (if ''flux_err'' \<in> set which then store_values ''flux_err'' ps rs r else Inr r) = Inr r'
            \<and> keeps r0 ls r'"
    using store_values_keeps[of rs "''flux_err''" r0 ls _ ps, OF keys(4) _ sh(2) names(4)] by auto
  have c5: "\<And>r. keeps r0 ls r \<Longrightarrow>
      \<exists>r'. (if ''flux_ul'' \<in> set which then store_values ''flux_ul'' ps rs r else Inr r) = Inr r'
            \<and> keeps r0 ls r'"
    using store_values_keeps[of rs "''flux_ul''" r0 ls _ ps, OF keys(5) _ sh(2) names(5)] by auto
  have fin: "\<And>r. keeps r0 ls r \<Longrightarrow>
      \<exists>r'. (if ''sqrt_ts'' \<in> set which
             then ebind (maps_item r ''ts'') (\<lambda>map_ts. Inr (r(''sqrt_ts'' \<mapsto> sqrt_ts map_ts)))
             else Inr r) = Inr r' \<and> keeps r0 ls r'"
  proof -
    fix r assume k: "keeps r0 ls r"
    with names(1) obtain m where m: "r ''ts'' = Some m" by (auto simp: keeps_def)
    with k have "map length (data m) = ls" by (auto simp: keeps_def shaped_def)
    then have "map length (data (sqrt_ts m)) = ls" by (simp add: sqrt_ts_def arr_map_shape)
    with k have "keeps r0 ls (r(''sqrt_ts'' \<mapsto> sqrt_ts m))" by (auto simp: keeps_def shaped_def)
    with m k show "\<exists>r'. (if ''sqrt_ts'' \<in> set which
             then ebind (maps_item r ''ts'') (\<lambda>map_ts. Inr (r(''sqrt_ts'' \<mapsto> sqrt_ts map_ts)))
             else Inr r) = Inr r' \<and> keeps r0 ls r'"
      by (auto simp: maps_item_def)
  qed
  show ?thesis
    unfolding collect_results_def
    apply (simp only: ne if_False)
    apply (rule ebind_ok[where P = "keeps r0 ls"])
     apply (rule store_values_keeps[of rs "''ts''" r0 ls r0 ps, OF keys(1) k0 sh(2) names(1)])
    apply (rule ebind_ok[where P = "keeps r0 ls"])
     apply (rule store_values_keeps[of rs "''flux''" r0 ls _ ps, OF keys(2) _ sh(2) names(2)], assumption)
    apply (rule ebind_ok[where P = "keeps r0 ls"])
     apply (rule store_values_keeps[of rs "''niter''" r0 ls _ ps, OF keys(3) _ sh(2) names(3)], assumption)
    apply (rule ebind_ok[where P = "keeps r0 ls"])
     apply (rule c4, assumption)
    apply (rule ebind_ok[where P = "keeps r0 ls"])
     apply (rule c5, assumption)
    apply (rule fin, assumption)
    done
qed

lemma run_pixels_maps:
  "run_pixels ext p maps kern which = Inr pixels
   \<Longrightarrow> \<exists>c e. maps ''counts'' = Some c \<and> maps ''exposure'' = Some e"
  unfolding run_pixels_def Let_def
  by (elim ebind_InrE) (auto simp: maps_item_def split: option.splits)

lemma init_result_ok:
  "maps ''counts'' = Some c \<Longrightarrow> \<exists>r0. init_result maps which = Inr r0"
  by (simp add: init_result_def maps_item_def)

lemma pymax_floor: "\<not> flt (pymax x t) t"
  by (cases x; cases t) (auto simp: pymax_def fgt_def)

section \<open>Evaluating the examples\<close>

lemma extract_3x3:
  "extract_array [[a, b, c], [d, e, f], [g, h, k]] (3, 3) (1, 1) = [[a, b, c], [d, e, f], [g, h, k]]"
  by (simp add: extract_array_def py_slice_def slice_bound_def Let_def)

lemma point_kernel_shape: "shape point_kernel = (3, 3)"
  by (simp add: shape_def point_kernel_def)

lemma example_windows:
  "extract_array example_counts (3, 3) (1, 1) = example_counts"
  "extract_array example_background (3, 3) (1, 1) = example_background"
  "extract_array example_exposure (3, 3) (1, 1) = example_exposure"
  "extract_array example_null (3, 3) (1, 1) = example_null"
  by (simp_all add: example_counts_def example_background_def example_exposure_def
        example_null_def extract_3x3)

lemma example_model_eval: "np_binop fmul example_exposure point_kernel = Inr example_model"
  by (simp add: np_binop_def arr_map2_def example_exposure_def point_kernel_def example_model_def)

lemma example_null_sum: "asum example_null = Fin 18"
  by (simp add: asum_def example_null_def)

lemma example_seed_item: "flux_item (Some example_seed) (1, 1) = Inr (Fin (- (1 / 1000000000000)))"
  by (simp add: flux_item_def index2d_def py_index_def example_seed_def)

lemma example_seed_statistic:
  "f_cash spec_externals (Fin (- (1 / 1000000000000))) example_counts example_background
     example_model = Fin (18 - 2 / 1000000000000)"
  by (simp add: f_cash_def spec_externals_def total_model_def arr_map2_def arr_map_def asum_def
        cash_pixel_def fsub_def FLUX_FACTOR_def example_counts_def example_background_def
        example_model_def)

lemma example_ts_value:
  "ts_value spec_externals (1, 1) example_counts example_exposure example_background
     example_null point_kernel (Some example_seed)
     ''root newton'' ''covar'' (Fin 1) ul_method (Fin 2) (Some (Fin 10)) RTOL
   = Inr (PyTuple [Fin (2 / 1000000000000), Fin (- (1 / 1000000000000000000000000)), Fin 0])"
  by (simp add: ts_value_def Let_def point_kernel_shape example_windows example_model_eval
        example_null_sum example_seed_item example_seed_statistic threshold_result_def fsub_def
        FLUX_FACTOR_def)

lemma secant_numeral:
  "secant f p0 p1 tol (numeral k) =
     (if feq (f p1) (f p0) then Inr (fdiv (fadd p1 p0) (Fin 2))
      else let p = fsub p1 (fdiv (fmul (f p1) (fsub p1 p0)) (fsub (f p1) (f p0)))
           in if flt (fabs (fsub p p1)) tol then Inr p else secant f p1 p tol (pred_numeral k))"
  by (simp add: numeral_eq_Suc)

lemma example_mask: "run_mask example_maps point_kernel = Inr [[0, 0, 0], [0, 1, 0], [0, 0, 0]]"
  by (simp add: run_mask_def mask_default_def example_maps_def point_kernel_def maps_item_def
        shape_def full_def set_block_def slice_bound_def arr_map2_def fgt_def
        example_exposure_def example_background_def)

lemma example_positions: "np_where [[0, 0, 0], [0, 1, 0], [0, 0, 0]] = [(1, 1)]"
  by (simp add: np_where_def upt_conv_Cons)

lemma example_null_eval:
  "cash_cython spec_externals example_counts example_background = example_null"
  by (simp add: spec_externals_def arr_map2_def cash_pixel_def fsub_def example_counts_def
        example_background_def example_null_def)

lemma example_convolution: "convolve_same example_seed point_kernel = example_seed"
  by code_simp

lemma example_flux_default:
  "flux_default spec_externals example_maps point_kernel
   = Inr \<lparr>geom = example_geom, data = example_seed\<rparr>"
proof -
  have excess: "np_binop fsub example_counts example_background
      = Inr [[Fin (- 1), Fin (- 1), Fin (- 1)], [Fin (- 1), Fin (- 1), Fin (- 1)],
             [Fin (- 1), Fin (- 1), Fin (- 1)]]"
    by (simp add: np_binop_def arr_map2_def fsub_def example_counts_def example_background_def)
  have ratio: "np_binop fdiv [[Fin (- 1), Fin (- 1), Fin (- 1)], [Fin (- 1), Fin (- 1), Fin (- 1)],
             [Fin (- 1), Fin (- 1), Fin (- 1)]] example_exposure = Inr example_seed"
    by (simp add: np_binop_def arr_map2_def example_exposure_def example_seed_def)
  have norm: "asum (arr_map (\<lambda>k. fmul k k) point_kernel) = Fin 1"
    by (simp add: asum_def arr_map_def point_kernel_def)
  have unit: "arr_map (\<lambda>f. fdiv f (Fin 1)) example_seed = example_seed"
    by (simp add: arr_map_def example_seed_def)
  show ?thesis
    by (simp add: flux_default_def maps_item_def example_maps_def excess ratio norm unit
          spec_externals_def example_convolution)
qed

lemma example_maps_items:
  "maps_item example_maps ''counts'' = Inr (FloatMap \<lparr>geom = example_geom, data = example_counts\<rparr>)"
  "maps_item example_maps ''background''
     = Inr (FloatMap \<lparr>geom = example_geom, data = example_background\<rparr>)"
  "maps_item example_maps ''exposure''
     = Inr (FloatMap \<lparr>geom = example_geom, data = example_exposure\<rparr>)"
  by (simp_all add: maps_item_def example_maps_def)

lemma example_run_pixels:
  "run_pixels spec_externals (threshold_parameters\<lparr>p_ul_method := ul_method\<rparr>) example_maps
     point_kernel (which_names All)
   = Inr ([(1, 1)],
          [PyTuple [Fin (2 / 1000000000000), Fin (- (1 / 1000000000000000000000000)), Fin 0]])"
  by (simp add: run_pixels_def Let_def example_mask example_positions example_flux_default
        example_null_eval example_ts_value threshold_parameters_def which_names_def
        example_maps_items)

lemma example_run_threshold:
  "run spec_externals (threshold_parameters\<lparr>p_ul_method := ul_method\<rparr>) example_maps
     (Kernel2D point_kernel) All = Inl TypeError"
proof -
  have "example_maps ''counts'' = Some (FloatMap \<lparr>geom = example_geom, data = example_counts\<rparr>)"
    by (simp add: example_maps_def)
  from init_result_ok[of example_maps _ "which_names All", OF this]
  obtain r0 where r0: "init_result example_maps (which_names All) = Inr r0" by blast
  have "collect_results (which_names All) [(1, 1)]
          [PyTuple [Fin (2 / 1000000000000), Fin (- (1 / 1000000000000000000000000)), Fin 0]] r0
        = Inl TypeError"
    by (simp add: collect_results_def store_values_def)
  with r0 show ?thesis
    by (simp add: run_def as_kernel_def Let_def example_run_pixels)
qed

lemma bisect_numeral:
  "bisect f a b rtol (numeral k) i =
     (let m = fdiv (fadd a b) (Fin 2)
      in if feq (f m) (Fin 0) then Inr (m, i + 1)
         else if flt (fabs (fsub b a)) (fmul (fmul (Fin 2) rtol) (fabs m)) then Inr (m, i + 1)
         else if feq (fsign (f m)) (fsign (f a)) then bisect f m b rtol (pred_numeral k) (i + 1)
         else bisect f a m rtol (pred_numeral k) (i + 1))"
  by (simp add: numeral_eq_Suc)

lemma pair_root_function:
  "1 + x \<noteq> 0 \<Longrightarrow>
   spec_f_cash_root (Fin x) pair_counts pair_background pair_model
   = Fin (1000000000000 * (1 / (1 + x) - 1) + 1000000000000 * (3 / (1 + x) - 1))"
  by (simp add: spec_f_cash_root_def model_pixels_def fgt_def FLUX_FACTOR_def fsub_def
        pair_counts_def pair_background_def pair_model_def)

lemma pair_bounds:
  "spec_amplitude_bounds pair_counts pair_background pair_model = (Fin 0, Fin 2, Fin (- 1))"
  by (simp add: spec_amplitude_bounds_def model_pixels_def fgt_def FLUX_FACTOR_def fsub_def
        fmin_def pymax_def Let_def pair_counts_def pair_background_def pair_model_def)

lemma pair_brentq:
  "bisect_brentq (\<lambda>x. spec_f_cash_root x pair_counts pair_background pair_model)
     (Fin 0) (Fin 2) MAX_NITER RTOL = Inr (Fin 1, 1)"
  by (simp add: bisect_brentq_def pair_root_function fgt_def MAX_NITER_def bisect_numeral Let_def)

lemma pair_brentq_invalid:
  "bisect_brentq (\<lambda>x. spec_f_cash_root x pair_counts pair_background pair_model)
     (Fin 2) (Fin 3) MAX_NITER RTOL = Inl ValueError"
  by (simp add: bisect_brentq_def pair_root_function fgt_def)

lemma pair_sum: "fgt (asum pair_counts) (Fin 0)"
  by (simp add: asum_def pair_counts_def fgt_def)

lemma extract_3x4:
  "extract_array [[a1, a2, a3, a4], [b1, b2, b3, b4], [c1, c2, c3, c4]] (3, 3) (1, 1)
   = [[a1, a2, a3], [b1, b2, b3], [c1, c2, c3]]"
  by (simp add: extract_array_def py_slice_def slice_bound_def Let_def)

lemma wide_windows:
  "extract_array wide_counts (3, 3) (1, 1) = window_counts"
  "extract_array wide_background (3, 3) (1, 1) = example_background"
  "extract_array wide_exposure (3, 3) (1, 1) = window_exposure"
  "extract_array wide_null (3, 3) (1, 1) = example_null"
  by (simp_all add: wide_counts_def wide_background_def wide_exposure_def wide_null_def
        window_counts_def window_exposure_def example_background_def example_null_def extract_3x4)

lemma wide_model: "np_binop fmul window_exposure point_kernel = Inr example_model"
  by (simp add: np_binop_def arr_map2_def window_exposure_def point_kernel_def example_model_def)

lemma wide_mask: "run_mask wide_maps point_kernel = Inr [[0, 0, 0, 0], [0, 1, 0, 0], [0, 0, 0, 0]]"
  by (simp add: run_mask_def mask_default_def wide_maps_def point_kernel_def maps_item_def
        shape_def full_def set_block_def slice_bound_def arr_map2_def fgt_def
        wide_exposure_def wide_background_def)

lemma wide_positions: "np_where [[0, 0, 0, 0], [0, 1, 0, 0], [0, 0, 0, 0]] = [(1, 1)]"
  by (simp add: np_where_def upt_conv_Cons)

lemma wide_null_eval: "cash_cython spec_externals wide_counts wide_background = wide_null"
  by (simp add: spec_externals_def arr_map2_def cash_pixel_def fsub_def wide_counts_def
        wide_background_def wide_null_def)

lemma wide_fit:
  "root_amplitude_brentq spec_externals window_counts example_background example_model RTOL
   = Inr (Fin 2, 0)"
  by (simp add: root_amplitude_brentq_def spec_externals_def spec_amplitude_bounds_def
        spec_f_cash_root_def bisect_brentq_def model_pixels_def fgt_def FLUX_FACTOR_def fsub_def
        asum_def fmin_def pymax_def Let_def window_counts_def example_background_def
        example_model_def)

lemma wide_maps_items:
  "maps_item wide_maps ''counts'' = Inr (FloatMap \<lparr>geom = example_geom, data = wide_counts\<rparr>)"
  "maps_item wide_maps ''background'' = Inr (FloatMap \<lparr>geom = example_geom, data = wide_background\<rparr>)"
  "maps_item wide_maps ''exposure'' = Inr (FloatMap \<lparr>geom = example_geom, data = wide_exposure\<rparr>)"
  by (simp_all add: maps_item_def wide_maps_def)

lemma wide_ts_value:
  "um = ''covar'' \<or> um = ''profile'' \<Longrightarrow>
   \<exists>d. ts_value spec_externals (1, 1) wide_counts wide_exposure wide_background wide_null
         point_kernel None ''root brentq'' ''covar'' (Fin 1) um (Fin 2) None RTOL
       = Inr (PyDict d)"
  by (auto simp add: ts_value_def Let_def point_kernel_shape wide_windows wide_model
        threshold_result_def fit_amplitude_def wide_fit add_flux_err_def add_flux_ul_def
        dict_item_def base_result_def)

lemma wide_run_pixels:
  assumes "p = default_parameters \<or> p = profile_parameters"
  shows "\<exists>d. run_pixels spec_externals p wide_maps point_kernel (which_names All)
           = Inr ([(1, 1)], [PyDict d])"
proof -
  from assms have um: "p_ul_method p = ''covar'' \<or> p_ul_method p = ''profile''"
    by (auto simp: default_parameters_def profile_parameters_def)
  from wide_ts_value[OF um] obtain d where
    "ts_value spec_externals (1, 1) wide_counts wide_exposure wide_background wide_null
         point_kernel None ''root brentq'' ''covar'' (Fin 1) (p_ul_method p) (Fin 2) None RTOL
       = Inr (PyDict d)" by blast
  with assms show ?thesis
    by (auto simp add: run_pixels_def Let_def wide_mask wide_positions wide_null_eval
          which_names_def wide_maps_items default_parameters_def profile_parameters_def)
qed

lemma wide_maps_values:
  "wide_maps ''counts'' = Some (FloatMap \<lparr>geom = example_geom, data = wide_counts\<rparr>)"
  "wide_maps ''background'' = Some (FloatMap \<lparr>geom = example_geom, data = wide_background\<rparr>)"
  "wide_maps ''exposure'' = Some (FloatMap \<lparr>geom = example_geom, data = wide_exposure\<rparr>)"
  by (simp_all add: wide_maps_def)

lemma wide_shapes:
  "map length wide_counts = [4, 4, 4]" "map length wide_exposure = [4, 4, 4]"
  by (simp_all add: wide_counts_def wide_exposure_def)

lemma hole_windows:
  "extract_array wide_counts (3, 3) (1, 1) = window_counts"
  "extract_array hole_background (3, 3) (1, 1) = window_background"
  "extract_array flat_exposure (3, 3) (1, 1) = example_exposure"
  "extract_array hole_null (3, 3) (1, 1) = window_null"
  by (simp_all add: wide_counts_def hole_background_def flat_exposure_def hole_null_def
        window_counts_def window_background_def example_exposure_def window_null_def extract_3x4)

lemma hole_mask: "run_mask hole_maps point_kernel = Inr [[0, 0, 0, 0], [0, 1, 0, 0], [0, 0, 0, 0]]"
  by (simp add: run_mask_def mask_default_def hole_maps_def point_kernel_def maps_item_def
        shape_def full_def set_block_def slice_bound_def arr_map2_def fgt_def
        flat_exposure_def hole_background_def)

lemma hole_null_eval: "cash_cython spec_externals wide_counts hole_background = hole_null"
  by (simp add: spec_externals_def arr_map2_def cash_pixel_def fsub_def wide_counts_def
        hole_background_def hole_null_def)

lemma hole_fit:
  "root_amplitude_brentq spec_externals window_counts window_background example_model RTOL
   = Inr (Fin 2, 0)"
  by (simp add: root_amplitude_brentq_def spec_externals_def spec_amplitude_bounds_def
        spec_f_cash_root_def bisect_brentq_def model_pixels_def fgt_def FLUX_FACTOR_def fsub_def
        asum_def fmin_def pymax_def Let_def window_counts_def window_background_def
        example_model_def)

lemma hole_null_sum: "asum window_null = PInf"
  by (simp add: asum_def window_null_def)

lemma hole_statistic:
  "f_cash spec_externals (Fin 2) window_counts window_background example_model = PInf"
  by (simp add: f_cash_def total_model_def spec_externals_def arr_map2_def arr_map_def cash_pixel_def asum_def
      FLUX_FACTOR_def fsub_def window_counts_def window_background_def example_model_def)

lemma hole_flux_err:
  "compute_flux_err_covar (Fin 2) window_counts window_background example_model = NaN"
  by (simp add: compute_flux_err_covar_def total_model_def arr_map2_def arr_map_def asum_def
      FLUX_FACTOR_def fsub_def window_counts_def window_background_def example_model_def Let_def)

lemma hole_ts_value:
  "ts_value spec_externals (1, 1) wide_counts flat_exposure hole_background hole_null
     point_kernel None ''root brentq'' ''covar'' (Fin 1) ''covar'' (Fin 2) None RTOL
   = Inr (PyDict [''ts'' \<mapsto> NaN, ''flux'' \<mapsto> Fin (2 / 1000000000000), ''niter'' \<mapsto> Fin 0,
                  ''flux_err'' \<mapsto> NaN, ''flux_ul'' \<mapsto> NaN])"
  by (simp add: ts_value_def Let_def point_kernel_shape hole_windows example_model_eval
        threshold_result_def fit_amplitude_def hole_fit add_flux_err_def add_flux_ul_def
        dict_item_def base_result_def hole_null_sum hole_statistic hole_flux_err FLUX_FACTOR_def
        fsub_def)

lemma hole_maps_items:
  "maps_item hole_maps ''counts'' = Inr (FloatMap \<lparr>geom = example_geom, data = wide_counts\<rparr>)"
  "maps_item hole_maps ''background'' = Inr (FloatMap \<lparr>geom = example_geom, data = hole_background\<rparr>)"
  "maps_item hole_maps ''exposure'' = Inr (FloatMap \<lparr>geom = example_geom, data = flat_exposure\<rparr>)"
  by (simp_all add: maps_item_def hole_maps_def)

lemma hole_run_pixels:
  "run_pixels spec_externals default_parameters hole_maps point_kernel
     [''ts'', ''sqrt_ts'', ''flux'', ''flux_err'', ''flux_ul'', ''niter'']
   = Inr ([(1, 1)], [PyDict [''ts'' \<mapsto> NaN, ''flux'' \<mapsto> Fin (2 / 1000000000000),
                             ''niter'' \<mapsto> Fin 0, ''flux_err'' \<mapsto> NaN, ''flux_ul'' \<mapsto> NaN]])"
  by (simp add: run_pixels_def Let_def hole_mask wide_positions hole_null_eval hole_ts_value
          hole_maps_items default_parameters_def)

lemma hole_maps_values:
  "hole_maps ''counts'' = Some (FloatMap \<lparr>geom = example_geom, data = wide_counts\<rparr>)"
  "hole_maps ''background'' = Some (FloatMap \<lparr>geom = example_geom, data = hole_background\<rparr>)"
  "hole_maps ''exposure'' = Some (FloatMap \<lparr>geom = example_geom, data = flat_exposure\<rparr>)"
  by (simp_all add: hole_maps_def)

lemma hole_run_ts:
  "output_at (run spec_externals default_parameters hole_maps (Kernel2D point_kernel) All) ''ts'' 1 1
   = Some NaN"
  by (simp add: output_at_def run_def as_kernel_def Let_def hole_run_pixels init_result_def
      which_names_def hole_maps_values arr_map_def wide_counts_def collect_results_def
      store_values_def maps_item_def sqrt_ts_def)

lemma hole_run_flux:
  "output_at (run spec_externals default_parameters hole_maps (Kernel2D point_kernel) All) ''flux'' 1 1
   = Some (Fin (2 / 1000000000000))"
  by (simp add: output_at_def run_def as_kernel_def Let_def hole_run_pixels init_result_def
      which_names_def hole_maps_values arr_map_def wide_counts_def collect_results_def
      store_values_def maps_item_def sqrt_ts_def)

section \<open>A run without a threshold\<close>

lemma ts_value_without_threshold:
  "ts_value ext pos c e b c0 k f method em es um us None rtol = Inr r \<Longrightarrow> is_dict r"
  unfolding ts_value_def Let_def threshold_result_def
  by (auto elim!: ebind_InrE split: prod.splits)

lemma run_pixels_dicts:
  assumes "run_pixels ext p maps kern which = Inr (ps, rs)" and "p_threshold p = None"
      and "''flux_ul'' \<in> set which" and "p_ul_method p \<noteq> ''covar''" and "p_ul_method p \<noteq> ''conf''"
      and "p_error_method p = ''covar'' \<or> p_error_method p = ''conf''"
  shows "\<forall>r \<in> set rs. has_key ''ts'' r \<and> has_key ''flux'' r \<and> has_key ''niter'' r
           \<and> (''flux_err'' \<in> set which \<longrightarrow> has_key ''flux_err'' r)
           \<and> is_dict r \<and> \<not> has_key ''flux_ul'' r"
proof
  fix r assume r: "r \<in> set rs"
  from run_pixels_results[OF assms(1) r] obtain pos c' e' b' c0' f' where
    ts: "ts_value ext pos c' e' b' c0' kern f' (p_method p)
         (if ''flux_err'' \<in> set which then p_error_method p else ''none'') (p_error_sigma p)
         (if ''flux_ul'' \<in> set which then p_ul_method p else ''none'') (p_ul_sigma p)
         (p_threshold p) (p_rtol p) = Inr r" by blast
  from ts assms(2) have d: "is_dict r" by (auto dest: ts_value_without_threshold)
  from ts_value_dict_keys[OF ts d] assms(3-6) d
  show "has_key ''ts'' r \<and> has_key ''flux'' r \<and> has_key ''niter'' r
           \<and> (''flux_err'' \<in> set which \<longrightarrow> has_key ''flux_err'' r)
           \<and> is_dict r \<and> \<not> has_key ''flux_ul'' r"
    by auto
qed

lemma collect_results_never_returns:
  assumes "rs \<noteq> []" and "''flux_ul'' \<in> set which"
      and "\<forall>r \<in> set rs. is_dict r \<and> \<not> has_key ''flux_ul'' r"
  shows "collect_results which ps rs r0 \<noteq> Inr r"
proof
  assume "collect_results which ps rs r0 = Inr r"
  with assms(2) obtain x y where "store_values ''flux_ul'' ps rs x = Inr y"
    unfolding collect_results_def by (auto elim!: ebind_InrE split: if_splits)
  with store_values_no_key[OF assms(1,3), of ps x] show False by simp
qed

section \<open>The solvers on a window without counts\<close>

lemma root_amplitude_brentq_without_counts:
  "\<not> fgt (asum counts) (Fin 0) \<Longrightarrow>
   root_amplitude_brentq ext counts background model rtol =
     Inr (snd (snd (amplitude_bounds_cython ext counts background model)), 0)"
  by (simp add: root_amplitude_brentq_def split: prod.splits)

lemma leastsq_iter_amplitude_without_counts:
  "\<not> fgt (asum counts) (Fin 0) \<Longrightarrow>
   leastsq_iter_amplitude ext counts background model maxiter rtol =
     Inr (snd (snd (amplitude_bounds_cython ext counts background model)), 0)"
  by (simp add: leastsq_iter_amplitude_def split: prod.splits)

lemma root_amplitude_ignores_bounds:
  "root_amplitude (ext\<lparr>amplitude_bounds_cython := b\<rparr>) counts background model flux rtol
   = root_amplitude ext counts background model flux rtol"
  by (simp add: root_amplitude_def)

section \<open>The claims\<close>

text \<open>
  C1 (the code departs from the claim). The claim: along every path of \<open>_ts_value\<close>,
  the threshold branch included, \<open>ts = (c_0 - c_1) * sign(amplitude)\<close>, so that \<open>ts\<close> and
  \<open>flux\<close> have one sign. The threshold branch returns \<open>c_0 - c_1\<close> itself. On the
  example image, with the default flux of \<open>-1e-12\<close> as the seed and a threshold of 10, the
  evaluator returns \<open>ts = 2e-12 > 0\<close> together with \<open>flux = -1e-24 < 0\<close>.
\<close>

theorem threshold_branch_drops_sign:
  "ts_value spec_externals (1, 1) example_counts example_exposure example_background
     example_null point_kernel (Some example_seed)
     ''root newton'' ''covar'' (Fin 1) ''covar'' (Fin 2) (Some (Fin 10)) RTOL
   = Inr (PyTuple [Fin (2 / 1000000000000), Fin (- (1 / 1000000000000000000000000)), Fin 0])"
  by (rule example_ts_value)

text \<open>
  C2 (the code departs from the claim). The claim: below the threshold the evaluator
  returns a record with the entries \<open>ts\<close>, \<open>flux\<close> and \<open>niter\<close>, which the driver can index
  by name. The threshold branch returns the tuple \<open>(c_0 - c_1, flux * FLUX_FACTOR, 0)\<close>, as
  the evaluation of C1 shows, and the driver reads \<open>_['ts']\<close> from it. On the example image,
  with the default flux map as the seed and a threshold of 10, the run ends in TypeError.
\<close>

theorem run_threshold_branch_type_error:
  "run spec_externals threshold_parameters example_maps (Kernel2D point_kernel) All = Inl TypeError"
  using example_run_threshold[of "''covar''"] by (simp add: threshold_parameters_def)

text \<open>
  C3 (the code departs from the claim). The claim: on a window without counts each of the
  three solvers returns \<open>amplitude_min_total\<close> and zero iterations. The bracketing solver
  and the least-squares solver do, whatever the external routines are; \<open>_root_amplitude\<close>
  never looks at the counts or at the bounds. On the window of the example, where
  \<open>amplitude_min_total = -1\<close>, the Newton solver started at 1 returns 1.0001.
\<close>

theorem newton_solver_without_counts:
  "root_amplitude spec_externals example_counts example_background example_model (Fin 1) RTOL
     = Inr (Fin (10001 / 10000), 0)
   \<and> amplitude_bounds_cython spec_externals example_counts example_background example_model
     = (Fin (- 1), Fin (- 1), Fin (- 1))
   \<and> root_amplitude_brentq spec_externals example_counts example_background example_model RTOL
     = Inr (Fin (- 1), 0)"
  by (simp add: root_amplitude_def root_amplitude_brentq_def spec_externals_def
        secant_newton_def MAX_NITER_def secant_numeral spec_f_cash_root_def
        spec_amplitude_bounds_def model_pixels_def fgt_def FLUX_FACTOR_def fsub_def asum_def
        fmin_def pymax_def Let_def example_counts_def example_background_def example_model_def)

text \<open>
  C4. \<open>_root_amplitude_brentq\<close> does not raise as long as \<open>brentq\<close> raises nothing but
  its two documented errors, ValueError for an invalid bracket and RuntimeError for
  non-convergence. When the window has counts and \<open>brentq\<close> returns a root after some
  iterations, the solver returns \<open>max(root, amplitude_min_total)\<close>, which is never below
  \<open>amplitude_min_total\<close>, with that number of iterations; when \<open>brentq\<close> fails, it returns
  NaN and \<open>MAX_NITER\<close>.
\<close>

theorem root_amplitude_brentq_never_raises:
  assumes "amplitude_bounds_cython ext counts background model
             = (amplitude_min, amplitude_max, amplitude_min_total)"
      and "outcome = brentq ext (\<lambda>x. f_cash_root_cython ext x counts background model)
                       amplitude_min amplitude_max MAX_NITER rtol"
  shows "(outcome = Inl RuntimeError \<or> outcome = Inl ValueError \<or> (\<exists>found. outcome = Inr found)
            \<longrightarrow> (\<exists>amplitude niter.
                   root_amplitude_brentq ext counts background model rtol = Inr (amplitude, niter)))
       \<and> (\<forall>x0 iterations. fgt (asum counts) (Fin 0) \<longrightarrow> outcome = Inr (x0, iterations)
            \<longrightarrow> root_amplitude_brentq ext counts background model rtol
                  = Inr (pymax x0 amplitude_min_total, iterations)
                \<and> \<not> flt (pymax x0 amplitude_min_total) amplitude_min_total)
       \<and> (fgt (asum counts) (Fin 0) \<longrightarrow> outcome = Inl RuntimeError \<or> outcome = Inl ValueError
            \<longrightarrow> root_amplitude_brentq ext counts background model rtol = Inr (NaN, MAX_NITER))"
  using assms
  by (auto simp: root_amplitude_brentq_def pymax_floor split: sum.splits prod.splits)

theorem root_amplitude_brentq_never_raises_witness:
  "root_amplitude_brentq spec_externals pair_counts pair_background pair_model RTOL
     = Inr (Fin 1, 1)
   \<and> \<not> flt (Fin 1) (Fin (- 1))
   \<and> root_amplitude_brentq
       (spec_externals\<lparr>amplitude_bounds_cython := \<lambda>c b m. (Fin 2, Fin 3, Fin (- 1))\<rparr>)
       pair_counts pair_background pair_model RTOL
     = Inr (NaN, MAX_NITER)"
proof -
  have b1: "amplitude_bounds_cython spec_externals pair_counts pair_background pair_model
              = (Fin 0, Fin 2, Fin (- 1))"
    by (simp add: spec_externals_def pair_bounds)
  have o1: "Inr (Fin 1, 1) = brentq spec_externals
              (\<lambda>x. f_cash_root_cython spec_externals x pair_counts pair_background pair_model)
              (Fin 0) (Fin 2) MAX_NITER RTOL"
    by (simp add: spec_externals_def pair_brentq)
  let ?ext = "spec_externals\<lparr>amplitude_bounds_cython := \<lambda>c b m. (Fin 2, Fin 3, Fin (- 1))\<rparr>"
  have b2: "amplitude_bounds_cython ?ext pair_counts pair_background pair_model
              = (Fin 2, Fin 3, Fin (- 1))"
    by simp
  have o2: "Inl ValueError = brentq ?ext
              (\<lambda>x. f_cash_root_cython ?ext x pair_counts pair_background pair_model)
              (Fin 2) (Fin 3) MAX_NITER RTOL"
    by (simp add: spec_externals_def pair_brentq_invalid)
  from root_amplitude_brentq_never_raises[OF b1 o1] root_amplitude_brentq_never_raises[OF b2 o2]
    pair_sum
  show ?thesis by (simp add: pymax_def fgt_def)
qed

text \<open>
  C5 (the code departs from the claim). The claim: with the covariance method the upper
  limit is \<open>flux + ul_sigma * \<sigma>\<close> for every configuration, \<open>\<sigma>\<close> being the closed-form
  error. The code adds \<open>ul_sigma\<close> times the stored \<open>flux_err\<close>, which is already
  \<open>\<sigma> * error_sigma\<close>: the upper limit is \<open>flux + ul_sigma * error_sigma * \<sigma>\<close>.
\<close>

theorem covar_upper_limit_uses_scaled_error:
  "ebind (add_flux_err ext ''covar'' error_sigma amplitude c_1 counts background model
            (base_result amplitude niter c0 c_1))
         (add_flux_ul ext ''covar'' ul_sigma amplitude c_1 counts background model)
   = Inr ((base_result amplitude niter c0 c_1)
            (''flux_err'' \<mapsto> fmul (compute_flux_err_covar amplitude counts background model) error_sigma,
             ''flux_ul'' \<mapsto> fadd (fmul amplitude FLUX_FACTOR)
                (fmul ul_sigma (fmul (compute_flux_err_covar amplitude counts background model) error_sigma))))"
  by (simp add: add_flux_err_def add_flux_ul_def dict_item_def base_result_def)

text \<open>
  C6 (amended). After a run that returns, a pixel whose background is zero or whose
  exposure is not positive (zero, negative or NaN) is not among the positions the
  evaluator is called at, and every result map that covers the pixel holds NaN there.
  The amendment leaves out that the logarithm of zero in the statistic cannot be reached:
  the statistic of the null hypothesis is computed on the whole image, and the window of a
  neighbouring position contains the pixel.
\<close>

theorem mask_exclusion:
  assumes "run ext p maps kernel' which_arg = Inr result"
      and "maps ''background'' = Some bg" and "maps ''exposure'' = Some ex"
      and "feq (float_data bg ! j ! i) (Fin 0) \<or> \<not> fgt (float_data ex ! j ! i) (Fin 0)"
  shows "(\<exists>kern positions results.
            as_kernel ext kernel' = Inr kern
            \<and> run_pixels ext p maps kern (which_names which_arg) = Inr (positions, results)
            \<and> (j, i) \<notin> set positions)
         \<and> (\<forall>name m. result name = Some m \<longrightarrow> j < length (data m) \<longrightarrow> i < length (data m ! j)
               \<longrightarrow> data m ! j ! i = NaN)"
proof -
  from assms(1) obtain kern r0 pixels where
    kern: "as_kernel ext kernel' = Inr kern"
    and init: "init_result maps (which_names which_arg) = Inr r0"
    and pix: "run_pixels ext p maps kern (which_names which_arg) = Inr pixels"
    and col: "collect_results (which_names which_arg) (fst pixels) (snd pixels) r0 = Inr result"
    unfolding run_def Let_def by (elim ebind_InrE)
  obtain ps rs where pixels: "pixels = (ps, rs)" by (cases pixels)
  from run_pixels_excluded[OF pix[unfolded pixels] assms(2,3,4)] have out: "(j, i) \<notin> set ps" .
  have "nan_at j i result"
    using collect_results_nan[OF col[unfolded pixels fst_conv snd_conv] out init_result_nan[OF init]] .
  with kern pix pixels out show ?thesis
    unfolding nan_at_def by blast
qed

theorem mask_exclusion_witness:
  "\<exists>result m. run spec_externals default_parameters wide_maps (Kernel2D point_kernel) All
                 = Inr result
      \<and> result ''ts'' = Some m \<and> data m ! 1 ! 2 = NaN
      \<and> (\<exists>positions results.
            run_pixels spec_externals default_parameters wide_maps point_kernel (which_names All)
              = Inr (positions, results)
            \<and> (1, 2) \<notin> set positions)"
proof -
  let ?which = "which_names All"
  let ?c = "FloatMap \<lparr>geom = example_geom, data = wide_counts\<rparr>"
  let ?b = "FloatMap \<lparr>geom = example_geom, data = wide_background\<rparr>"
  let ?e = "FloatMap \<lparr>geom = example_geom, data = wide_exposure\<rparr>"
  from wide_run_pixels[of default_parameters] obtain d where
    pix: "run_pixels spec_externals default_parameters wide_maps point_kernel ?which
            = Inr ([(1, 1)], [PyDict d])" by auto
  from init_result_ok[of wide_maps ?c ?which, OF wide_maps_values(1)]
  obtain r0 where r0: "init_result wide_maps ?which = Inr r0" by blast
  from init_result_shaped[OF r0 wide_maps_values(1)]
  have sh: "shaped [4, 4, 4] r0" and names: "\<forall>name \<in> set ?which. r0 name \<noteq> None"
    by (simp_all add: wide_shapes)
  from run_pixels_in_shape[OF pix wide_maps_values(3)]
  have ins: "in_shape [4, 4, 4] [(1, 1)]" by (simp add: wide_shapes)
  from run_pixels_results[OF pix, of "PyDict d"] obtain pos c e b c0 f where
    "ts_value spec_externals pos c e b c0 point_kernel f (p_method default_parameters)
       (if ''flux_err'' \<in> set ?which then p_error_method default_parameters else ''none'')
       (p_error_sigma default_parameters)
       (if ''flux_ul'' \<in> set ?which then p_ul_method default_parameters else ''none'')
       (p_ul_sigma default_parameters) (p_threshold default_parameters)
       (p_rtol default_parameters) = Inr (PyDict d)" by auto
  from ts_value_dict_keys[OF this]
  have keys: "has_key ''ts'' (PyDict d)" "has_key ''flux'' (PyDict d)" "has_key ''niter'' (PyDict d)"
    "has_key ''flux_err'' (PyDict d)" "has_key ''flux_ul'' (PyDict d)"
    by (simp_all add: which_names_def default_parameters_def)
  from names have n: "r0 ''ts'' \<noteq> None" "r0 ''flux'' \<noteq> None" "r0 ''niter'' \<noteq> None"
    "r0 ''flux_err'' \<noteq> None" "r0 ''flux_ul'' \<noteq> None"
    by (simp_all add: which_names_def)
  from collect_results_ok[of "[(1, 1)]" "[PyDict d]" r0 "[4, 4, 4]" ?which] keys n sh ins
  obtain r where col: "collect_results ?which [(1, 1)] [PyDict d] r0 = Inr r"
    and k: "keeps r0 [4, 4, 4] r" by auto
  from r0 pix col
  have run: "run spec_externals default_parameters wide_maps (Kernel2D point_kernel) All = Inr r"
    by (simp add: run_def as_kernel_def Let_def)
  from k n(1) obtain m where m: "r ''ts'' = Some m" and ml: "map length (data m) = [4, 4, 4]"
    by (auto simp: keeps_def shaped_def)
  from ml have len: "length (data m) = 3" by (metis length_map length_Cons list.size(3) numeral_3_eq_3)
  from ml have "map length (data m) ! 1 = 4" by simp
  with len have len1: "length (data m ! 1) = 4" by simp
  have cond: "feq (float_data ?b ! 1 ! 2) (Fin 0) \<or> \<not> fgt (float_data ?e ! 1 ! 2) (Fin 0)"
    by (simp add: wide_exposure_def fgt_def)
  from mask_exclusion[OF run wide_maps_values(2) wide_maps_values(3) cond] m len len1
  have "data m ! 1 ! 2 = NaN"
    and "\<exists>positions results.
            run_pixels spec_externals default_parameters wide_maps point_kernel ?which
              = Inr (positions, results) \<and> (1, 2) \<notin> set positions"
    by (auto simp: as_kernel_def)
  with run m show ?thesis by blast
qed

text \<open>
  On the image whose background is zero at \<open>(1, 2)\<close> that pixel is masked, and the statistic
  is still evaluated on it: the null statistic of the run is infinite there, so is its sum
  over the window of the neighbour \<open>(1, 1)\<close>, and the run, which fits a flux at \<open>(1, 1)\<close>,
  returns the test statistic NaN there.
\<close>

theorem masked_pixel_reaches_statistic:
  "run_mask hole_maps point_kernel = Inr [[0, 0, 0, 0], [0, 1, 0, 0], [0, 0, 0, 0]]
   \<and> cash_cython spec_externals wide_counts hole_background ! 1 ! 2 = PInf
   \<and> asum (extract_array (cash_cython spec_externals wide_counts hole_background)
              (shape point_kernel) (1, 1)) = PInf
   \<and> output_at (run spec_externals default_parameters hole_maps (Kernel2D point_kernel) All)
        ''flux'' 1 2 = Some NaN
   \<and> output_at (run spec_externals default_parameters hole_maps (Kernel2D point_kernel) All)
        ''flux'' 1 1 = Some (Fin (2 / 1000000000000))
   \<and> output_at (run spec_externals default_parameters hole_maps (Kernel2D point_kernel) All)
        ''ts'' 1 1 = Some NaN"
proof -
  have "cash_cython spec_externals wide_counts hole_background ! 1 ! 2 = PInf"
    by (simp add: hole_null_eval hole_null_def)
  moreover have "asum (extract_array (cash_cython spec_externals wide_counts hole_background)
              (shape point_kernel) (1, 1)) = PInf"
    by (simp add: hole_null_eval point_kernel_shape hole_windows hole_null_sum)
  moreover have "output_at (run spec_externals default_parameters hole_maps
                    (Kernel2D point_kernel) All) ''flux'' 1 2 = Some NaN"
    by (simp add: output_at_def run_def as_kernel_def Let_def hole_run_pixels init_result_def
        which_names_def hole_maps_values arr_map_def wide_counts_def collect_results_def
        store_values_def maps_item_def sqrt_ts_def)
  ultimately show ?thesis
    using hole_mask hole_run_flux hole_run_ts by simp
qed

text \<open>
  C7 (the code departs from the claim). The claim: after downsampling every result map,
  \<open>niter\<close> included, is upsampled and cropped, \<open>niter\<close> with order 0 and \<open>flux_err\<close> with
  order 1. The loop runs over \<open>zip\<close> of five names and four orders, so it ends after
  \<open>flux_err\<close>: whatever the map operations are, \<open>niter\<close> (and \<open>flux_ul\<close>) is left as the
  estimator returned it on the downsampled image, and \<open>flux_err\<close> is upsampled with order 0.
\<close>

theorem upsample_results_skips_niter:
  "upsample_results mx factor pad_width ts_results = Inl KeyError
   \<or> (\<exists>r. upsample_results mx factor pad_width ts_results = Inr r
          \<and> r ''niter'' = ts_results ''niter''
          \<and> r ''flux_ul'' = ts_results ''flux_ul''
          \<and> r ''flux_err'' = map_option (\<lambda>m. map_crop mx (map_upsample mx m factor True 0) pad_width)
                                 (ts_results ''flux_err''))"
  by (auto simp: upsample_results_def upsample_step_def maps_item_def Let_def split: option.splits)

text \<open>
  C8 (the code departs from the claim). The claim: \<open>compute_maximum_ts_image\<close> returns,
  without raising, the maps of the dominating scale and a uniform scale map. The function
  computes the maxima and then raises: on every input the result is an exception, NameError
  once the arrays could be stacked.
\<close>

theorem compute_maximum_ts_image_raises:
  "compute_maximum_ts_image ts_image_results = Inl ValueError
   \<or> compute_maximum_ts_image ts_image_results = Inl NameError"
  by (cases "maximum_arrays ts_image_results")
     (auto simp: compute_maximum_ts_image_def maximum_arrays_def Let_def split: if_splits)

text \<open>
  C10 (amended). The constructor raises ValueError for a \<open>method\<close> or an \<open>error_method\<close>
  outside its list and does not look at \<open>ul_method\<close>: with the two valid it returns the
  parameters for every \<open>ul_method\<close>. For one that is neither \<open>'covar'\<close> nor \<open>'conf'\<close> and
  no threshold, a run that asks for \<open>flux_ul\<close> never returns a result; when the evaluation
  of the pixels raises nothing and there is at least one pixel, on counts and exposure maps
  of one shape, the run raises KeyError while it collects the results.
\<close>

theorem ul_method_not_validated:
  "(method \<notin> set [''root brentq'', ''root newton'', ''leastsq iter'']
      \<or> error_method \<notin> set [''covar'', ''conf'']
    \<longrightarrow> TSMapEstimator_init method error_method error_sigma ul_method ul_sigma n_jobs
          threshold rtol = Inl ValueError)
   \<and> (method \<in> set [''root brentq'', ''root newton'', ''leastsq iter'']
      \<and> error_method \<in> set [''covar'', ''conf'']
    \<longrightarrow> TSMapEstimator_init method error_method error_sigma ul_method ul_sigma n_jobs
          threshold rtol
        = Inr \<lparr>p_method = method, p_error_method = error_method, p_error_sigma = error_sigma,
               p_ul_method = ul_method, p_ul_sigma = ul_sigma, p_n_jobs = n_jobs,
               p_threshold = threshold, p_rtol = rtol\<rparr>)
   \<and> (ul_method \<notin> set [''covar'', ''conf'']
    \<longrightarrow> TSMapEstimator_init method error_method error_sigma ul_method ul_sigma n_jobs
          None rtol = Inr p
    \<longrightarrow> ''flux_ul'' \<in> set (which_names which_arg)
    \<longrightarrow> (\<forall>result. run ext p maps kernel' which_arg \<noteq> Inr result)
        \<and> (\<forall>kern positions results.
              as_kernel ext kernel' = Inr kern
              \<longrightarrow> run_pixels ext p maps kern (which_names which_arg) = Inr (positions, results)
              \<longrightarrow> positions \<noteq> []
              \<longrightarrow> (\<forall>c e. maps ''counts'' = Some c \<longrightarrow> maps ''exposure'' = Some e
                     \<longrightarrow> map length (float_data c) = map length (float_data e))
              \<longrightarrow> run ext p maps kernel' which_arg = Inl KeyError))"
proof (intro conjI impI allI)
  assume "method \<notin> set [''root brentq'', ''root newton'', ''leastsq iter'']
            \<or> error_method \<notin> set [''covar'', ''conf'']"
  then show "TSMapEstimator_init method error_method error_sigma ul_method ul_sigma n_jobs
          threshold rtol = Inl ValueError"
    by (auto simp: TSMapEstimator_init_def)
next
  assume "method \<in> set [''root brentq'', ''root newton'', ''leastsq iter'']
      \<and> error_method \<in> set [''covar'', ''conf'']"
  then show "TSMapEstimator_init method error_method error_sigma ul_method ul_sigma n_jobs
          threshold rtol
        = Inr \<lparr>p_method = method, p_error_method = error_method, p_error_sigma = error_sigma,
               p_ul_method = ul_method, p_ul_sigma = ul_sigma, p_n_jobs = n_jobs,
               p_threshold = threshold, p_rtol = rtol\<rparr>"
    by (auto simp: TSMapEstimator_init_def)
next
  fix result
  assume ul_method: "ul_method \<notin> set [''covar'', ''conf'']"
    and init: "TSMapEstimator_init method error_method error_sigma ul_method ul_sigma n_jobs
          None rtol = Inr p"
    and ul: "''flux_ul'' \<in> set (which_names which_arg)"
  let ?which = "which_names which_arg"
  from init have p: "p_error_method p = ''covar'' \<or> p_error_method p = ''conf''"
    "p_ul_method p = ul_method" "p_threshold p = None"
    by (auto simp: TSMapEstimator_init_def split: if_splits)
  show "run ext p maps kernel' which_arg \<noteq> Inr result"
  proof
    assume "run ext p maps kernel' which_arg = Inr result"
    then obtain kern r0 pixels where
      pix: "run_pixels ext p maps kern ?which = Inr pixels"
      and col: "collect_results ?which (fst pixels) (snd pixels) r0 = Inr result"
      unfolding run_def Let_def by (elim ebind_InrE)
    obtain ps rs where pixels: "pixels = (ps, rs)" by (cases pixels)
    from col pixels have ne: "ps \<noteq> []"
      by (auto simp: collect_results_def split: if_splits)
    with run_pixels_length[OF pix[unfolded pixels]] have rne: "rs \<noteq> []" by auto
    from run_pixels_dicts[OF pix[unfolded pixels] p(3) ul] p(1,2) ul_method
    have "\<forall>r \<in> set rs. is_dict r \<and> \<not> has_key ''flux_ul'' r" by simp
    from collect_results_never_returns[OF rne ul this] col pixels show False by simp
  qed
next
  fix kern positions results
  assume ul_method: "ul_method \<notin> set [''covar'', ''conf'']"
    and init: "TSMapEstimator_init method error_method error_sigma ul_method ul_sigma n_jobs
          None rtol = Inr p"
    and ul: "''flux_ul'' \<in> set (which_names which_arg)"
    and kern: "as_kernel ext kernel' = Inr kern"
    and pix: "run_pixels ext p maps kern (which_names which_arg) = Inr (positions, results)"
    and ne: "positions \<noteq> []"
    and same: "\<forall>c e. maps ''counts'' = Some c \<longrightarrow> maps ''exposure'' = Some e
                 \<longrightarrow> map length (float_data c) = map length (float_data e)"
  let ?which = "which_names which_arg"
  from init have p: "p_error_method p = ''covar'' \<or> p_error_method p = ''conf''"
    "p_ul_method p = ul_method" "p_threshold p = None"
    by (auto simp: TSMapEstimator_init_def split: if_splits)
  from run_pixels_maps[OF pix] obtain c e where
    c: "maps ''counts'' = Some c" and e: "maps ''exposure'' = Some e" by blast
  from same c e have shape_eq: "map length (float_data c) = map length (float_data e)" by blast
  from init_result_ok[of maps c ?which, OF c]
  obtain r0 where r0: "init_result maps ?which = Inr r0" by blast
  from init_result_shaped[OF r0 c] have sh: "shaped (map length (float_data c)) r0" by blast
  from run_pixels_in_shape[OF pix e] shape_eq
  have ins: "in_shape (map length (float_data c)) positions" by simp
  from run_pixels_length[OF pix] ne have rne: "results \<noteq> []" by auto
  from run_pixels_dicts[OF pix p(3) ul] p(1,2) ul_method
  have keys: "\<forall>r \<in> set results. has_key ''ts'' r \<and> has_key ''flux'' r \<and> has_key ''niter'' r
                \<and> (''flux_err'' \<in> set ?which \<longrightarrow> has_key ''flux_err'' r)
                \<and> is_dict r \<and> \<not> has_key ''flux_ul'' r"
    by simp
  have "collect_results ?which positions results r0 = Inl KeyError"
    by (rule collect_results_KeyError[OF ne rne _ _ _ _ ul _ sh ins]) (use keys in blast)+
  with kern r0 pix show "run ext p maps kernel' which_arg = Inl KeyError"
    by (simp add: run_def)
qed

theorem ul_method_not_validated_witness:
  "TSMapEstimator_init ''simplex'' ''covar'' (Fin 1) ''profile'' (Fin 2) 1 None RTOL
     = Inl ValueError
   \<and> TSMapEstimator_init ''root brentq'' ''covar'' (Fin 1) ''profile'' (Fin 2) 1 None RTOL
     = Inr profile_parameters
   \<and> run spec_externals profile_parameters wide_maps (Kernel2D point_kernel) All = Inl KeyError"
proof -
  note inst = ul_method_not_validated[where error_sigma = "Fin 1" and ul_method = "''profile''"
      and ul_sigma = "Fin 2" and n_jobs = 1 and rtol = RTOL and error_method = "''covar''"
      and threshold = None]
  have bad: "TSMapEstimator_init ''simplex'' ''covar'' (Fin 1) ''profile'' (Fin 2) 1 None RTOL
     = Inl ValueError"
    using inst[of "''simplex''"] by simp
  have init: "TSMapEstimator_init ''root brentq'' ''covar'' (Fin 1) ''profile'' (Fin 2) 1 None RTOL
     = Inr profile_parameters"
    using inst[of "''root brentq''"] by (simp add: profile_parameters_def)
  from wide_run_pixels[of profile_parameters] obtain d where
    pix: "run_pixels spec_externals profile_parameters wide_maps point_kernel (which_names All)
            = Inr ([(1, 1)], [PyDict d])" by auto
  have same: "\<forall>c e. wide_maps ''counts'' = Some c \<longrightarrow> wide_maps ''exposure'' = Some e
                 \<longrightarrow> map length (float_data c) = map length (float_data e)"
    by (simp add: wide_maps_values wide_shapes)
  have ul: "''flux_ul'' \<in> set (which_names All)" by (simp add: which_names_def)
  have kern: "as_kernel spec_externals (Kernel2D point_kernel) = Inr point_kernel"
    by (simp add: as_kernel_def)
  from inst[of "''root brentq''" profile_parameters All spec_externals wide_maps
      "Kernel2D point_kernel"] init ul kern pix same
  have "run spec_externals profile_parameters wide_maps (Kernel2D point_kernel) All = Inl KeyError"
    by simp
  with bad init show ?thesis by simp
qed

text \<open>
  With a threshold the same estimator does not get as far as the missing key: on the
  example image the pixel stays below the threshold of 10, and the run with the upper limit
  method \<open>'profile'\<close> ends in TypeError.
\<close>

theorem ul_method_threshold_type_error:
  "TSMapEstimator_init ''root newton'' ''covar'' (Fin 1) ''profile'' (Fin 2) 1 (Some (Fin 10)) RTOL
     = Inr (threshold_parameters\<lparr>p_ul_method := ''profile''\<rparr>)
   \<and> run spec_externals (threshold_parameters\<lparr>p_ul_method := ''profile''\<rparr>) example_maps
        (Kernel2D point_kernel) All = Inl TypeError"
proof -
  have "TSMapEstimator_init ''root newton'' ''covar'' (Fin 1) ''profile'' (Fin 2) 1
          (Some (Fin 10)) RTOL = Inr (threshold_parameters\<lparr>p_ul_method := ''profile''\<rparr>)"
    by (simp add: TSMapEstimator_init_def threshold_parameters_def)
  moreover have "run spec_externals (threshold_parameters\<lparr>p_ul_method := ''profile''\<rparr>)
        example_maps (Kernel2D point_kernel) All = Inl TypeError"
    by (rule example_run_threshold)
  ultimately show ?thesis by (rule conjI)
qed

end
